theory Spec2Isabelle
  imports Complex_Main "HOL-Library.Char_ord" "HOL-Library.List_Lexorder"
begin

section \<open>The retail sales forecast dashboard (backup.py)\<close>

text \<open>
  The program is one Streamlit script, run from top to bottom on every interaction. It
  reads a table of sales records, narrows it by three select boxes, shows four metrics,
  fits a Prophet model on the narrowed series, and shows a forecast chart, two bar charts
  over the whole table and a table of the forecast.

  The embedding follows the script line by line. A DataFrame is the list of its rows, in
  row order. The raw table's rows are records with the columns the script reads; the
  frames of the forecast path, whose columns the script selects, renames and merges, are
  lists of rows that pair a column name with a cell. A pandas Timestamp of a calendar
  day is the number of days since 1970-01-01.

  The three key columns have the type \<open>read_csv\<close> infers for them, a type parameter
  each (text for an object column, numbers for a numeric one), and a key field may be
  missing: \<open>read_csv\<close> reads an empty or NA field as NaN, here \<open>None\<close>. \<open>sales\<close> is
  the int64 column of units sold, an integer; pandas adds int64 values with silent
  wrap-around, which \<open>int64\<close> writes out. Every row has a date and its numeric fields.
  Margins, percentages and means are exact rationals where the script holds 64-bit
  floats; no statement below depends on rounding error. A mean over no rows (NaN) and
  a maximum over no rows (NaT) are \<open>None\<close>. An exception is a value of \<open>py_error\<close> on
  the left of a sum.
\<close>

subsection \<open>Data\<close>

type_synonym timestamp = int

record ('s, 't, 'p) sales_record =
  date :: timestamp
  state :: "'s option"
  store_id :: "'t option"
  product_id :: "'p option"
  sales :: int
  margin :: rat
  out_of_stock_pct :: rat

text \<open>
  \<open>IndexError\<close> is what \<open>.iloc[-1]\<close> raises on a frame of no rows, \<open>ValueError\<close> what
  Python's \<open>max\<close> raises on an empty sequence and what Prophet's \<open>fit\<close> raises on fewer
  than two rows, \<open>TypeError\<close> what \<open>nlargest\<close> raises on a column of dtype object,
  \<open>RuntimeError\<close> stands for a failure inside the forecasting library.
  \<open>EmptyInputError\<close> is the name the design document gives to the error of an empty
  selection; the script defines no exception of its own and no function below returns
  it.
\<close>

datatype py_error =
    IndexError
  | ValueError
  | TypeError
  | RuntimeError
  | EmptyInputError

datatype cell = Timestamp timestamp | Number rat

type_synonym row = "(string \<times> cell) list"

text \<open>\<open>pd.to_datetime\<close> of a field \<open>YYYY-MM-DD\<close>: the day number of a civil date.\<close>

definition to_datetime :: "int \<Rightarrow> int \<Rightarrow> int \<Rightarrow> timestamp" where
  "to_datetime y m d =
     (let y' = (if m \<le> 2 then y - 1 else y);
          era = y' div 400;
          yoe = y' - era * 400;
          doy = (153 * (if 2 < m then m - 3 else m + 9) + 2) div 5 + d - 1;
          doe = yoe * 365 + yoe div 4 - yoe div 100 + doy
      in era * 146097 + doe - 719468)"

subsection \<open>pandas operations the script uses\<close>

text \<open>
  \<open>Series.unique()\<close>: the distinct values in order of first appearance; all NaN count
  as one value.
\<close>

definition unique :: "'a list \<Rightarrow> 'a list" where
  "unique xs = rev (remdups (rev xs))"

text \<open>\<open>df[mask]\<close>: the rows whose entry in the boolean series is true.\<close>

definition boolean_index :: "'a list \<Rightarrow> bool list \<Rightarrow> 'a list" where
  "boolean_index df flags = map fst (filter snd (zip df flags))"

text \<open>
  \<open>==\<close> on a key: a missing value equals nothing, not even a missing value (NaN, and
  the \<open>None\<close> a select box returns when it has no option).
\<close>

definition py_eq :: "'a option \<Rightarrow> 'a option \<Rightarrow> bool" where
  "py_eq a b = (a \<noteq> None \<and> a = b)"

text \<open>\<open>series == value\<close> and \<open>mask & mask\<close>, elementwise.\<close>

definition eq_mask :: "('r \<Rightarrow> 'a option) \<Rightarrow> 'a option \<Rightarrow> 'r list \<Rightarrow> bool list" where
  "eq_mask column v df = map (\<lambda>r. py_eq (column r) v) df"

definition and_mask :: "bool list \<Rightarrow> bool list \<Rightarrow> bool list" where
  "and_mask m1 m2 = map (\<lambda>(a, b). a \<and> b) (zip m1 m2)"

text \<open>\<open>.iloc[-1]\<close>: the last row; out of bounds on a frame of no rows.\<close>

definition iloc_last :: "'a list \<Rightarrow> py_error + 'a" where
  "iloc_last df = (if df = [] then Inl IndexError else Inr (last df))"

text \<open>\<open>Series.mean()\<close>: NaN on an empty series.\<close>

definition mean :: "rat list \<Rightarrow> rat option" where
  "mean xs = (if xs = [] then None else Some (sum_list xs / of_nat (length xs)))"

text \<open>\<open>Series.max()\<close>: NaT on an empty series of timestamps.\<close>

definition series_max :: "'a::linorder list \<Rightarrow> 'a option" where
  "series_max xs = (case xs of [] \<Rightarrow> None | x # ys \<Rightarrow> Some (fold max ys x))"

text \<open>Python's built-in \<open>max\<close> over a series: ValueError on an empty one.\<close>

definition py_max :: "rat list \<Rightarrow> py_error + rat" where
  "py_max xs = (case series_max xs of None \<Rightarrow> Inl ValueError | Some v \<Rightarrow> Inr v)"

text \<open>An integer as int64 arithmetic leaves it: reduced to the range from -2^63 to 2^63 - 1.\<close>

definition int64 :: "int \<Rightarrow> int" where
  "int64 x = (x + 2 ^ 63) mod 2 ^ 64 - 2 ^ 63"

text \<open>
  \<open>df.groupby(key)["sales"].sum().reset_index()\<close>: one row per distinct key that is not
  missing (\<open>groupby\<close> drops the rows of a NaN key), keys ascending in the order of the
  column's type, with the int64 sum of \<open>sales\<close> over the rows of that key.
\<close>

definition groupby_sum ::
  "(('s, 't, 'p) sales_record \<Rightarrow> 'k::linorder option) \<Rightarrow> ('s, 't, 'p) sales_record list
     \<Rightarrow> ('k \<times> int) list" where
  "groupby_sum key df =
     map (\<lambda>k. (k, int64 (sum_list (map sales (filter (\<lambda>r. key r = Some k) df)))))
       (sort (unique (concat (map (\<lambda>r. case key r of None \<Rightarrow> [] | Some k \<Rightarrow> [k]) df))))"

text \<open>
  \<open>Series.nlargest(n)\<close> with \<open>keep='first'\<close>: the first \<open>n\<close> entries in descending
  order of value, entries of equal value in their order in the series.
\<close>

definition nlargest :: "nat \<Rightarrow> ('k \<times> int) list \<Rightarrow> ('k \<times> int) list" where
  "nlargest n s = take n (sort_key (\<lambda>e. - snd e) s)"

text \<open>Columns of a frame of cells.\<close>

definition col_ts :: "string \<Rightarrow> row list \<Rightarrow> timestamp list" where
  "col_ts c df = concat (map (\<lambda>r. case map_of r c of Some (Timestamp d) \<Rightarrow> [d] | _ \<Rightarrow> []) df)"

definition col_num :: "string \<Rightarrow> row list \<Rightarrow> rat list" where
  "col_num c df = concat (map (\<lambda>r. case map_of r c of Some (Number v) \<Rightarrow> [v] | _ \<Rightarrow> []) df)"

text \<open>\<open>df.rename(columns=m)\<close>.\<close>

definition rename :: "(string \<times> string) list \<Rightarrow> row list \<Rightarrow> row list" where
  "rename m df = map (map (\<lambda>(c, v). (case map_of m c of Some c' \<Rightarrow> c' | None \<Rightarrow> c, v))) df"

text \<open>
  \<open>pd.merge(left, right, on=k)\<close>, an inner join (the default \<open>how\<close>): for every left
  row in order, every right row with the same key, the left row's columns followed by
  the right row's other columns. Both frames have the column \<open>k\<close> where the script calls
  it.
\<close>

definition pd_merge :: "string \<Rightarrow> row list \<Rightarrow> row list \<Rightarrow> row list" where
  "pd_merge k left right =
     concat (map (\<lambda>l. map (\<lambda>r. l @ filter (\<lambda>cv. fst cv \<noteq> k) r)
                          (filter (\<lambda>r. map_of r k = map_of l k) right)) left)"

text \<open>
  \<open>DataFrame.round(2)\<close>: numbers to two decimals, a tie to the even neighbour;
  timestamps unchanged.
\<close>

definition rint :: "rat \<Rightarrow> int" where
  "rint x =
     (let f = \<lfloor>x\<rfloor>; d = x - of_int f
      in if d < 1 / 2 then f else if 1 / 2 < d then f + 1 else if even f then f else f + 1)"

definition round2 :: "row list \<Rightarrow> row list" where
  "round2 df =
     map (map (\<lambda>(c, v). (c, case v of Number x \<Rightarrow> Number (of_int (rint (x * 100)) / 100) | _ \<Rightarrow> v))) df"

subsection \<open>Filters (lines 44 to 54)\<close>

text \<open>
  The values the three select boxes offer. \<open>sorted\<close> fixes the order in which a box
  shows them, and raises on text mixed with NaN before any box is shown; the
  statements below are about which values are offered. A box with no option returns
  \<open>None\<close>.
\<close>

definition states :: "('s, 't, 'p) sales_record list \<Rightarrow> 's option list" where
  "states raw_df = unique (map state raw_df)"

definition stores :: "('s, 't, 'p) sales_record list \<Rightarrow> 's option \<Rightarrow> 't option list" where
  "stores raw_df st = unique (map store_id (boolean_index raw_df (eq_mask state st raw_df)))"

definition products ::
  "('s, 't, 'p) sales_record list \<Rightarrow> 's option \<Rightarrow> 't option \<Rightarrow> 'p option list" where
  "products raw_df st so =
     unique (map product_id
       (boolean_index raw_df (and_mask (eq_mask state st raw_df) (eq_mask store_id so raw_df))))"

definition filtered_df ::
  "('s, 't, 'p) sales_record list \<Rightarrow> 's option \<Rightarrow> 't option \<Rightarrow> 'p option
     \<Rightarrow> ('s, 't, 'p) sales_record list" where
  "filtered_df raw_df st so pr =
     boolean_index raw_df
       (and_mask (and_mask (eq_mask state st raw_df) (eq_mask store_id so raw_df))
                 (eq_mask product_id pr raw_df))"

subsection \<open>KPIs (lines 57 to 60)\<close>

text \<open>
  \<open>filtered_df.sort_values("date").iloc[-1]\<close>: a row of the latest date. pandas'
  default sort promises no order among rows of the same date, so which of several rows
  of the latest date it returns is not fixed by the script; the model returns the one
  that comes last in the frame, and no statement below depends on that choice.
  The mean of the int64 column \<open>sales\<close> is taken in floating point, here exactly.
\<close>

definition latest :: "('s, 't, 'p) sales_record list \<Rightarrow> py_error + ('s, 't, 'p) sales_record" where
  "latest fdf = iloc_last (sort_key date fdf)"

definition avg_sales :: "('s, 't, 'p) sales_record list \<Rightarrow> rat option" where
  "avg_sales fdf = mean (map (\<lambda>r. of_int (sales r)) fdf)"

definition avg_margin :: "('s, 't, 'p) sales_record list \<Rightarrow> rat option" where
  "avg_margin fdf = mean (map margin fdf)"

definition avg_outstock :: "('s, 't, 'p) sales_record list \<Rightarrow> rat option" where
  "avg_outstock fdf = mean (map out_of_stock_pct fdf)"

subsection \<open>Prophet forecast (lines 69 to 75)\<close>

definition df_prophet :: "('s, 't, 'p) sales_record list \<Rightarrow> row list" where
  "df_prophet fdf =
     map (\<lambda>r. [(''ds'', Timestamp (date r)), (''y'', Number (of_int (sales r)))]) fdf"

text \<open>
  The forecasting library. Its numerical part is a parameter: from the history it
  gives, or fails to give, the prediction at a date. Around it the library does what
  the script relies on: \<open>fit\<close> refuses a history of fewer than two rows and keeps the
  history's distinct dates in ascending order; \<open>make_future_dataframe(periods)\<close>, daily
  and with the history included (its defaults), is those dates followed by the
  \<open>periods\<close> days after the last of them; \<open>predict\<close> gives one row per row of the frame
  it is given, of which the script keeps \<open>ds\<close> and \<open>yhat\<close>.
\<close>

type_synonym predictor = "timestamp \<Rightarrow> py_error + rat"

type_synonym prophet = "row list \<Rightarrow> py_error + predictor"

record model =
  history_dates :: "timestamp list"
  yhat_at :: predictor

definition fit :: "prophet \<Rightarrow> row list \<Rightarrow> py_error + model" where
  "fit P df =
     (if length df < 2 then Inl ValueError
      else case P df of
             Inl e \<Rightarrow> Inl e
           | Inr f \<Rightarrow> Inr \<lparr>history_dates = sort (unique (col_ts ''ds'' df)), yhat_at = f\<rparr>)"

definition future_dates :: "timestamp list \<Rightarrow> nat \<Rightarrow> timestamp list" where
  "future_dates hist periods =
     (case series_max hist of
        None \<Rightarrow> []
      | Some last_date \<Rightarrow> map (\<lambda>k. last_date + int k) [1..<Suc periods])"

definition make_future_dataframe :: "model \<Rightarrow> nat \<Rightarrow> row list" where
  "make_future_dataframe m periods =
     map (\<lambda>d. [(''ds'', Timestamp d)]) (history_dates m @ future_dates (history_dates m) periods)"

fun predict_dates :: "predictor \<Rightarrow> timestamp list \<Rightarrow> py_error + row list" where
  "predict_dates f [] = Inr []"
| "predict_dates f (d # ds) =
     (case f d of
        Inl e \<Rightarrow> Inl e
      | Inr v \<Rightarrow>
          (case predict_dates f ds of
             Inl e \<Rightarrow> Inl e
           | Inr rs \<Rightarrow> Inr ([(''ds'', Timestamp d), (''yhat'', Number v)] # rs)))"

text \<open>\<open>model.predict(future)[["ds", "yhat"]]\<close>.\<close>

definition predict :: "model \<Rightarrow> row list \<Rightarrow> py_error + row list" where
  "predict m future = predict_dates (yhat_at m) (col_ts ''ds'' future)"

definition merged :: "row list \<Rightarrow> row list \<Rightarrow> row list" where
  "merged future forecast = pd_merge ''ds'' future forecast"

text \<open>Lines 70 to 74 in sequence: the merged frame, or the exception of fit or predict.\<close>

definition forecast_series ::
  "prophet \<Rightarrow> ('s, 't, 'p) sales_record list \<Rightarrow> py_error + row list" where
  "forecast_series P fdf =
     (case fit P (df_prophet fdf) of
        Inl e \<Rightarrow> Inl e
      | Inr m \<Rightarrow>
          (let future = make_future_dataframe m 30
           in case predict m future of
                Inl e \<Rightarrow> Inl e
              | Inr forecast \<Rightarrow> Inr (merged future forecast)))"

definition cutoff :: "row list \<Rightarrow> timestamp option" where
  "cutoff dfp = series_max (col_ts ''ds'' dfp)"

text \<open>
  The \<open>ds\<close> column of the frame \<open>make_future_dataframe(periods=30)\<close> builds after
  a fit on the frame \<open>fdf\<close>.
\<close>

definition all_dates :: "('s, 't, 'p) sales_record list \<Rightarrow> timestamp list" where
  "all_dates fdf =
     sort (unique (map date fdf)) @ [Max (date ` set fdf) + 1 .. Max (date ` set fdf) + 30]"

subsection \<open>Aggregations over the whole table (lines 96 to 105)\<close>

text \<open>
  Line 96. A table with no row (a file of the header line only) has every column of
  dtype object, the sums of its groups too, and \<open>nlargest\<close> refuses that dtype.
\<close>

definition top5_df :: "('s, 't, 'p::linorder) sales_record list \<Rightarrow> py_error + ('p \<times> int) list" where
  "top5_df raw_df =
     (if raw_df = [] then Inl TypeError else Inr (nlargest 5 (groupby_sum product_id raw_df)))"

definition latest_date :: "('s, 't, 'p) sales_record list \<Rightarrow> timestamp option" where
  "latest_date raw_df = series_max (map date raw_df)"

text \<open>
  The rows of the last chart: \<open>raw_df[raw_df["date"] >= latest_date - pd.Timedelta(days=7)]\<close>.
  A comparison with NaT is false: on an empty table no row is kept.
\<close>

definition last_7_days :: "('s, 't, 'p) sales_record list \<Rightarrow> ('s, 't, 'p) sales_record list" where
  "last_7_days raw_df =
     boolean_index raw_df
       (map (\<lambda>r. case latest_date raw_df of None \<Rightarrow> False | Some m \<Rightarrow> m - 7 \<le> date r) raw_df)"

definition store_agg :: "('s, 't::linorder, 'p) sales_record list \<Rightarrow> ('t \<times> int) list" where
  "store_agg raw_df = groupby_sum store_id (last_7_days raw_df)"

subsection \<open>Forecast table (lines 115 to 116)\<close>

definition display_df :: "row list \<Rightarrow> timestamp option \<Rightarrow> row list" where
  "display_df mrg cdate =
     rename [(''ds'', ''Date''), (''yhat'', ''Forecasted Sales'')]
       (boolean_index mrg
          (map (\<lambda>r. case (map_of r ''ds'', cdate) of
                      (Some (Timestamp d), Some c) \<Rightarrow> c < d
                    | _ \<Rightarrow> False) mrg))"

subsection \<open>The script from the filter on (lines 50 to 117)\<close>

text \<open>
  What a run hands to the page, in order, and the exception that ended it, if one did,
  for the selection the three boxes returned. An exception is caught nowhere in the
  script: the statements after the one that raises are not executed, and what was
  rendered before stays on the page.
\<close>

datatype ('t, 'p) element =
    Metrics int "rat option" "rat option" "rat option"
  | ForecastChart "(timestamp \<times> rat) list" "(timestamp \<times> rat) list" "timestamp option" rat
  | Top5Chart "('p \<times> int) list"
  | StoreChart "('t \<times> int) list"
  | ForecastTable "row list"

record ('t, 'p) run =
  rendered :: "('t, 'p) element list"
  raised :: "py_error option"

definition script ::
  "prophet \<Rightarrow> ('s, 't::linorder, 'p::linorder) sales_record list
     \<Rightarrow> 's option \<Rightarrow> 't option \<Rightarrow> 'p option \<Rightarrow> ('t, 'p) run" where
  "script P raw_df st so pr =
     (let fdf = filtered_df raw_df st so pr in
      case latest fdf of
        Inl e \<Rightarrow> \<lparr>rendered = [], raised = Some e\<rparr>
      | Inr l \<Rightarrow>
          (let kpis = [Metrics (sales l) (avg_margin fdf) (avg_outstock fdf) (avg_sales fdf)];
               dfp = df_prophet fdf
           in case forecast_series P fdf of
                Inl e \<Rightarrow> \<lparr>rendered = kpis, raised = Some e\<rparr>
              | Inr mrg \<Rightarrow>
                  (case py_max (col_num ''y'' dfp) of
                     Inl e \<Rightarrow> \<lparr>rendered = kpis, raised = Some e\<rparr>
                   | Inr peak \<Rightarrow>
                       (let chart = ForecastChart (zip (col_ts ''ds'' dfp) (col_num ''y'' dfp))
                                      (zip (col_ts ''ds'' mrg) (col_num ''yhat'' mrg))
                                      (cutoff dfp) peak
                        in case top5_df raw_df of
                             Inl e \<Rightarrow> \<lparr>rendered = kpis @ [chart], raised = Some e\<rparr>
                           | Inr top5 \<Rightarrow>
                               \<lparr>rendered = kpis @
                                  [chart,
                                   Top5Chart top5,
                                   StoreChart (store_agg raw_df),
                                   ForecastTable (round2 (display_df mrg (cutoff dfp)))],
                                raised = None\<rparr>))))"

subsection \<open>Example inputs\<close>

text \<open>
  Concrete tables and forecasters at which the statements below are evaluated, all
  with text keys. \<open>three_rows\<close> is the three-row scenario of the design document.
  \<open>sample_table\<close> has two states, three stores and two products; its rows for (CA, S1,
  P1) skip 2024-01-02 and repeat the row of 2024-01-03. In \<open>missing_product_table\<close> the
  product field of both rows is missing, so the product box offers NaN and nothing
  else. In \<open>overflow_table\<close> the sales of P1 add up to 2^63.
\<close>

definition sale ::
  "timestamp \<Rightarrow> 's \<Rightarrow> 't \<Rightarrow> 'p \<Rightarrow> int \<Rightarrow> rat \<Rightarrow> rat \<Rightarrow> ('s, 't, 'p) sales_record" where
  "sale d st so pr s mg oos =
     \<lparr>date = d, state = Some st, store_id = Some so, product_id = Some pr, sales = s,
      margin = mg, out_of_stock_pct = oos\<rparr>"

definition three_rows :: "(string, string, string) sales_record list" where
  "three_rows =
     [sale (to_datetime 2024 1 1) ''CA'' ''S1'' ''P1'' 10 4 0,
      sale (to_datetime 2024 1 2) ''CA'' ''S1'' ''P1'' 20 5 1,
      sale (to_datetime 2024 1 3) ''CA'' ''S1'' ''P1'' 30 6 2]"

definition sample_table :: "(string, string, string) sales_record list" where
  "sample_table =
     [sale (to_datetime 2024 1 1) ''CA'' ''S1'' ''P1'' 10 4 0,
      sale (to_datetime 2024 1 2) ''CA'' ''S2'' ''P2'' 5 2 1,
      sale (to_datetime 2024 1 3) ''CA'' ''S1'' ''P1'' 30 6 2,
      sale (to_datetime 2024 1 3) ''CA'' ''S1'' ''P1'' 30 6 2,
      sale (to_datetime 2024 1 10) ''NY'' ''S3'' ''P1'' 7 3 0]"

definition missing_product_table :: "(string, string, string) sales_record list" where
  "missing_product_table =
     [(sale (to_datetime 2024 1 1) ''CA'' ''S1'' ''P1'' 10 4 0)\<lparr>product_id := None\<rparr>,
      (sale (to_datetime 2024 1 2) ''CA'' ''S1'' ''P1'' 20 5 1)\<lparr>product_id := None\<rparr>]"

definition overflow_table :: "(string, string, string) sales_record list" where
  "overflow_table =
     [sale (to_datetime 2024 1 1) ''CA'' ''S1'' ''P1'' (2 ^ 62) 4 0,
      sale (to_datetime 2024 1 2) ''CA'' ''S1'' ''P1'' (2 ^ 62) 5 1,
      sale (to_datetime 2024 1 2) ''CA'' ''S1'' ''P2'' 77 5 1]"

text \<open>A forecaster that predicts the same value at every date, and one whose fit fails.\<close>

definition constant_prophet :: "rat \<Rightarrow> prophet" where
  "constant_prophet v = (\<lambda>df. Inr (\<lambda>d. Inr v))"

definition failing_prophet :: prophet where
  "failing_prophet = (\<lambda>df. Inl RuntimeError)"

section \<open>Properties\<close>

lemmas example_defs =
  sample_table_def three_rows_def missing_product_table_def overflow_table_def sale_def
  to_datetime_def

lemmas pandas_defs = boolean_index_def eq_mask_def and_mask_def unique_def py_eq_def

subsection \<open>Masks, distinct values, maxima\<close>

lemma boolean_index_map: "boolean_index df (map P df) = filter P df"
  by (induction df) (simp_all add: boolean_index_def)

lemma and_mask_map: "and_mask (map P df) (map Q df) = map (\<lambda>r. P r \<and> Q r) df"
  by (induction df) (simp_all add: and_mask_def)

lemma set_unique: "set (unique xs) = set xs"
  by (simp add: unique_def)

lemma distinct_unique: "distinct (unique xs)"
  by (simp add: unique_def)

lemma count_list_filter: "count_list (filter P xs) x = (if P x then count_list xs x else 0)"
  by (induction xs) auto

lemma series_max_Max:
  assumes "xs \<noteq> []"
  shows "series_max xs = Some (Max (set xs))"
proof (cases xs)
  case Nil
  with assms show ?thesis by simp
next
  case (Cons x ys)
  have "fold max ys x = Max (set (x # ys))" by (simp only: Max.set_eq_fold)
  with Cons show ?thesis by (simp add: series_max_def)
qed

subsection \<open>The filter\<close>

lemma filtered_df_filter:
  "filtered_df T st so pr =
     filter (\<lambda>r. py_eq (state r) st \<and> py_eq (store_id r) so \<and> py_eq (product_id r) pr) T"
  by (simp add: filtered_df_def eq_mask_def and_mask_map boolean_index_map)

text \<open>
  C1. For every raw table and every selection of a state, a store and a product, the
  filtered frame holds only rows of the table whose three fields equal the selection
  (under \<open>==\<close>, for which a missing value equals nothing), and every row occurs in it
  as often as in the table when it matches the selection and not at all otherwise: no
  matching row is lost or duplicated.
\<close>

theorem filtered_df_exact:
  "(\<forall>r \<in> set (filtered_df T st so pr).
       r \<in> set T \<and> py_eq (state r) st \<and> py_eq (store_id r) so \<and> py_eq (product_id r) pr
     \<and> state r = st \<and> store_id r = so \<and> product_id r = pr)
   \<and> (\<forall>r. count_list (filtered_df T st so pr) r =
          (if py_eq (state r) st \<and> py_eq (store_id r) so \<and> py_eq (product_id r) pr
           then count_list T r else 0))"
  by (simp add: filtered_df_filter count_list_filter) (simp add: py_eq_def)

theorem filtered_df_exact_witness:
  "count_list (filtered_df sample_table (Some ''CA'') (Some ''S1'') (Some ''P1''))
     (sale (to_datetime 2024 1 3) ''CA'' ''S1'' ''P1'' 30 6 2) = 2
   \<and> count_list (filtered_df sample_table (Some ''CA'') (Some ''S1'') (Some ''P1''))
     (sale (to_datetime 2024 1 2) ''CA'' ''S2'' ''P2'' 5 2 1) = 0"
proof -
  from filtered_df_exact[of sample_table "Some ''CA''" "Some ''S1''" "Some ''P1''"]
  have c: "count_list (filtered_df sample_table (Some ''CA'') (Some ''S1'') (Some ''P1'')) r =
      (if py_eq (state r) (Some ''CA'') \<and> py_eq (store_id r) (Some ''S1'')
          \<and> py_eq (product_id r) (Some ''P1'')
       then count_list sample_table r else 0)" for r
    by blast
  have "count_list (filtered_df sample_table (Some ''CA'') (Some ''S1'') (Some ''P1''))
      (sale (to_datetime 2024 1 3) ''CA'' ''S1'' ''P1'' 30 6 2) =
      count_list sample_table (sale (to_datetime 2024 1 3) ''CA'' ''S1'' ''P1'' 30 6 2)"
    by (simp add: c sale_def py_eq_def)
  moreover have "count_list sample_table (sale (to_datetime 2024 1 3) ''CA'' ''S1'' ''P1'' 30 6 2) = 2"
    by (simp add: example_defs)
  moreover have "count_list (filtered_df sample_table (Some ''CA'') (Some ''S1'') (Some ''P1''))
      (sale (to_datetime 2024 1 2) ''CA'' ''S2'' ''P2'' 5 2 1) = 0"
    by (simp add: c sale_def py_eq_def)
  ultimately show ?thesis by simp
qed

subsection \<open>The three-row scenario\<close>

text \<open>
  C9. On the frame of the three rows (2024-01-01, CA, S1, P1, 10), (2024-01-02, CA, S1,
  P1, 20) and (2024-01-03, CA, S1, P1, 30), whatever their margins and out-of-stock
  percentages, the mean of the sales is 20, the latest row is the one of 2024-01-03
  with sales 30, and the series handed to the forecaster is (2024-01-01, 10),
  (2024-01-02, 20), (2024-01-03, 30) in this order.
\<close>

theorem three_row_scenario:
  "avg_sales [sale (to_datetime 2024 1 1) ''CA'' ''S1'' ''P1'' 10 m1 o1,
              sale (to_datetime 2024 1 2) ''CA'' ''S1'' ''P1'' 20 m2 o2,
              sale (to_datetime 2024 1 3) ''CA'' ''S1'' ''P1'' 30 m3 o3] = Some 20
   \<and> latest [sale (to_datetime 2024 1 1) ''CA'' ''S1'' ''P1'' 10 m1 o1,
             sale (to_datetime 2024 1 2) ''CA'' ''S1'' ''P1'' 20 m2 o2,
             sale (to_datetime 2024 1 3) ''CA'' ''S1'' ''P1'' 30 m3 o3]
       = Inr (sale (to_datetime 2024 1 3) ''CA'' ''S1'' ''P1'' 30 m3 o3)
   \<and> sales (sale (to_datetime 2024 1 3) ''CA'' ''S1'' ''P1'' 30 m3 o3) = 30
   \<and> df_prophet [sale (to_datetime 2024 1 1) ''CA'' ''S1'' ''P1'' 10 m1 o1,
                 sale (to_datetime 2024 1 2) ''CA'' ''S1'' ''P1'' 20 m2 o2,
                 sale (to_datetime 2024 1 3) ''CA'' ''S1'' ''P1'' 30 m3 o3]
       = [[(''ds'', Timestamp (to_datetime 2024 1 1)), (''y'', Number 10)],
          [(''ds'', Timestamp (to_datetime 2024 1 2)), (''y'', Number 20)],
          [(''ds'', Timestamp (to_datetime 2024 1 3)), (''y'', Number 30)]]"
  by (simp add: avg_sales_def mean_def latest_def iloc_last_def df_prophet_def sale_def
      to_datetime_def)

subsection \<open>Hierarchical selection\<close>

lemma py_eq_None: "\<not> py_eq a None"
  by (auto simp: py_eq_def)

lemma py_eq_Some: "py_eq a (Some v) \<longleftrightarrow> a = Some v"
  by (auto simp: py_eq_def)

lemma filtered_df_missing: "filtered_df T st so None = []"
  by (simp add: filtered_df_filter py_eq_None)

lemma stores_set: "set (stores T st) = store_id ` {r \<in> set T. py_eq (state r) st}"
  by (auto simp: stores_def set_unique eq_mask_def boolean_index_map)

lemma products_set:
  "set (products T st so) =
     product_id ` {r \<in> set T. py_eq (state r) st \<and> py_eq (store_id r) so}"
  by (auto simp: products_def set_unique eq_mask_def and_mask_map boolean_index_map)

lemma latest_nonempty:
  assumes "fdf \<noteq> []"
  shows "\<exists>l. latest fdf = Inr l"
proof -
  have "length (sort_key date fdf) = length fdf" by simp
  with assms have "sort_key date fdf \<noteq> []" by (metis length_0_conv)
  then show ?thesis by (simp add: latest_def iloc_last_def)
qed

lemma latest_empty: "latest [] = Inl IndexError"
  by (simp add: latest_def iloc_last_def)

text \<open>
  C10, as the code has it. When the selected state is one of the table's distinct
  states, the selected store one of the distinct stores of the rows of that state, and
  the selected product one of the distinct products of the rows of that state and
  store, the filtered frame has a row and the latest-row lookup returns a row, provided
  the selected product is not a missing value. When it is a missing value (NaN, which
  is among those distinct products as soon as one such row has no product), no row
  matches and the lookup raises IndexError.
\<close>

theorem hierarchical_selection_nonempty:
  assumes "st \<in> set (states T)"
    and "so \<in> set (stores T st)"
    and "pr \<in> set (products T st so)"
  shows "(pr \<noteq> None \<longrightarrow>
            filtered_df T st so pr \<noteq> [] \<and> (\<exists>l. latest (filtered_df T st so pr) = Inr l))
       \<and> (pr = None \<longrightarrow>
            filtered_df T st so pr = [] \<and> latest (filtered_df T st so pr) = Inl IndexError)"
proof (intro conjI impI)
  assume some: "pr \<noteq> None"
  from assms(3) obtain r
    where "r \<in> set T" "py_eq (state r) st" "py_eq (store_id r) so" "product_id r = pr"
    by (auto simp: products_set)
  with some have "r \<in> set (filtered_df T st so pr)"
    by (auto simp: filtered_df_filter py_eq_def)
  then show ne: "filtered_df T st so pr \<noteq> []" by auto
  then show "\<exists>l. latest (filtered_df T st so pr) = Inr l" by (rule latest_nonempty)
next
  assume "pr = None"
  then show e: "filtered_df T st so pr = []" by (simp add: filtered_df_missing)
  show "latest (filtered_df T st so pr) = Inl IndexError" by (simp only: e latest_empty)
qed

theorem hierarchical_selection_nonempty_witness:
  "Some ''CA'' \<in> set (states sample_table)
   \<and> Some ''S1'' \<in> set (stores sample_table (Some ''CA''))
   \<and> Some ''P1'' \<in> set (products sample_table (Some ''CA'') (Some ''S1''))
   \<and> filtered_df sample_table (Some ''CA'') (Some ''S1'') (Some ''P1'') \<noteq> []
   \<and> (\<exists>l. latest (filtered_df sample_table (Some ''CA'') (Some ''S1'') (Some ''P1'')) = Inr l)"
proof -
  have h1: "Some ''CA'' \<in> set (states sample_table)"
    by (simp add: states_def example_defs pandas_defs)
  have h2: "Some ''S1'' \<in> set (stores sample_table (Some ''CA''))"
    by (simp add: stores_def example_defs pandas_defs)
  have h3: "Some ''P1'' \<in> set (products sample_table (Some ''CA'') (Some ''S1''))"
    by (simp add: products_def example_defs pandas_defs)
  from hierarchical_selection_nonempty[OF h1 h2 h3] h1 h2 h3 show ?thesis by blast
qed

text \<open>
  C10 as stated fails: in \<open>missing_product_table\<close> the state CA, the store S1 and the
  missing product are each among the distinct values of the claim, the product box
  offers that value alone, and the filtered frame has no row.
\<close>

theorem hierarchical_selection_counterexample:
  "Some ''CA'' \<in> set (states missing_product_table)
   \<and> Some ''S1'' \<in> set (stores missing_product_table (Some ''CA''))
   \<and> products missing_product_table (Some ''CA'') (Some ''S1'') = [None]
   \<and> None \<in> set (products missing_product_table (Some ''CA'') (Some ''S1''))
   \<and> filtered_df missing_product_table (Some ''CA'') (Some ''S1'') None = []
   \<and> latest (filtered_df missing_product_table (Some ''CA'') (Some ''S1'') None) = Inl IndexError"
proof -
  have e: "filtered_df missing_product_table (Some ''CA'') (Some ''S1'') None = []"
    by (rule filtered_df_missing)
  have p: "products missing_product_table (Some ''CA'') (Some ''S1'') = [None]"
    by (simp add: products_def example_defs pandas_defs)
  have "Some ''CA'' \<in> set (states missing_product_table)"
    by (simp add: states_def example_defs pandas_defs)
  moreover have "Some ''S1'' \<in> set (stores missing_product_table (Some ''CA''))"
    by (simp add: stores_def example_defs pandas_defs)
  ultimately show ?thesis by (simp add: e p latest_empty)
qed

subsection \<open>Top products\<close>

lemma int64_range: "- (2 ^ 63) \<le> int64 x \<and> int64 x < 2 ^ 63"
  by (simp add: int64_def)

lemma int64_exact:
  assumes "- (2 ^ 63) \<le> x" and "x < 2 ^ 63"
  shows "int64 x = x"
  using assms by (simp add: int64_def)

lemma group_keys_set:
  "set (concat (map (\<lambda>r. case key r of None \<Rightarrow> [] | Some k \<Rightarrow> [k]) df))
     = {k. Some k \<in> key ` set df}"
  by (induction df) (auto split: option.splits)

lemma groupby_sum_keys:
  "map fst (groupby_sum key df) =
     sort (unique (concat (map (\<lambda>r. case key r of None \<Rightarrow> [] | Some k \<Rightarrow> [k]) df)))"
  by (simp add: groupby_sum_def comp_def)

lemma groupby_sum_key_set: "fst ` set (groupby_sum key df) = {k. Some k \<in> key ` set df}"
proof -
  have "fst ` set (groupby_sum key df) = set (map fst (groupby_sum key df))" by simp
  also have "\<dots> = {k. Some k \<in> key ` set df}"
    by (simp only: groupby_sum_keys set_sort set_unique group_keys_set)
  finally show ?thesis .
qed

lemma groupby_sum_distinct: "distinct (map fst (groupby_sum key df))"
  by (simp only: groupby_sum_keys distinct_sort distinct_unique)

lemma groupby_sum_length: "length (groupby_sum key df) = card {k. Some k \<in> key ` set df}"
proof -
  have "card (set (map fst (groupby_sum key df))) = length (map fst (groupby_sum key df))"
    using groupby_sum_distinct by (rule distinct_card)
  moreover have "set (map fst (groupby_sum key df)) = {k. Some k \<in> key ` set df}"
    using groupby_sum_key_set[of key df] by simp
  ultimately show ?thesis by simp
qed

lemma groupby_sum_entry:
  assumes "e \<in> set (groupby_sum key df)"
  shows "Some (fst e) \<in> key ` set df
    \<and> snd e = int64 (sum_list (map sales (filter (\<lambda>r. key r = Some (fst e)) df)))"
proof -
  from assms have "fst e \<in> fst ` set (groupby_sum key df)" by simp
  then have "Some (fst e) \<in> key ` set df" by (simp only: groupby_sum_key_set mem_Collect_eq)
  moreover from assms
  have "snd e = int64 (sum_list (map sales (filter (\<lambda>r. key r = Some (fst e)) df)))"
    by (auto simp: groupby_sum_def)
  ultimately show ?thesis by simp
qed

lemma sorted_desc_sort_key:
  "sorted_wrt (\<lambda>a b. snd b \<le> snd a) (sort_key (\<lambda>e. - snd e) (s :: ('k \<times> int) list))"
proof -
  have "sorted (map (\<lambda>e. - snd e) (sort_key (\<lambda>e. - snd e) s))"
    by (rule sorted_sort_key)
  then show ?thesis by (simp add: sorted_map)
qed

lemma nlargest_sorted: "sorted_wrt (\<lambda>a b. snd b \<le> snd a) (nlargest n s)"
  unfolding nlargest_def by (rule sorted_wrt_take) (rule sorted_desc_sort_key)

lemma nlargest_set: "set (nlargest n s) \<subseteq> set s"
  unfolding nlargest_def by (metis set_sort set_take_subset)

lemma nlargest_length: "length (nlargest n s) = min n (length s)"
  by (simp add: nlargest_def min.commute)

lemma nlargest_distinct_keys:
  assumes "distinct (map fst s)"
  shows "distinct (map fst (nlargest n s))"
proof -
  have "distinct (map fst (sort_key (\<lambda>e. - snd e) s))"
    using assms by (simp add: distinct_map)
  then show ?thesis
    unfolding nlargest_def by (simp add: take_map[symmetric])
qed

lemma nlargest_top:
  assumes "e \<in> set s" and "e \<notin> set (nlargest n s)" and "e' \<in> set (nlargest n s)"
  shows "snd e \<le> snd e'"
proof -
  let ?xs = "sort_key (\<lambda>e. - snd e) s"
  have "sorted_wrt (\<lambda>a b. snd b \<le> snd a) (take n ?xs @ drop n ?xs)"
    by (simp add: sorted_desc_sort_key)
  moreover have "e \<in> set (drop n ?xs)"
  proof -
    have "e \<in> set (take n ?xs @ drop n ?xs)" using assms(1) by simp
    with assms(2) show ?thesis unfolding nlargest_def by (simp only: set_append Un_iff) blast
  qed
  ultimately show ?thesis
    using assms(3) unfolding nlargest_def by (auto simp only: sorted_wrt_append)
qed

text \<open>
  C7, as the code has it. For every raw table and every \<open>n\<close>, grouping by product (rows
  without a product are left out), summing the sales of each group and taking the \<open>n\<close>
  largest gives as many entries as \<open>n\<close> and the number of distinct products allow, in
  descending order of total, one per product of the table, no group left out having a
  larger total than a group kept. The total of an entry is the int64 sum of the sales
  of all rows of its product: the exact sum whenever that lies between -2^63 and
  2^63 - 1, and reduced into that range otherwise. The chart is the case \<open>n = 5\<close> on a
  table with a row; on a table with no row line 96 raises a TypeError.
\<close>

theorem top_n_products:
  "length (nlargest n (groupby_sum product_id T)) = min n (card {k. Some k \<in> product_id ` set T})
   \<and> sorted_wrt (\<lambda>a b. snd b \<le> snd a) (nlargest n (groupby_sum product_id T))
   \<and> distinct (map fst (nlargest n (groupby_sum product_id T)))
   \<and> (\<forall>e \<in> set (nlargest n (groupby_sum product_id T)).
          Some (fst e) \<in> product_id ` set T
        \<and> snd e = int64 (sum_list (map sales (filter (\<lambda>r. product_id r = Some (fst e)) T)))
        \<and> (- (2 ^ 63) \<le> sum_list (map sales (filter (\<lambda>r. product_id r = Some (fst e)) T))
           \<and> sum_list (map sales (filter (\<lambda>r. product_id r = Some (fst e)) T)) < 2 ^ 63
           \<longrightarrow> snd e = sum_list (map sales (filter (\<lambda>r. product_id r = Some (fst e)) T))))
   \<and> fst ` set (groupby_sum product_id T) = {k. Some k \<in> product_id ` set T}
   \<and> set (nlargest n (groupby_sum product_id T)) \<subseteq> set (groupby_sum product_id T)
   \<and> (\<forall>e \<in> set (groupby_sum product_id T). \<forall>e' \<in> set (nlargest n (groupby_sum product_id T)).
          e \<notin> set (nlargest n (groupby_sum product_id T)) \<longrightarrow> snd e \<le> snd e')
   \<and> (T \<noteq> [] \<longrightarrow> top5_df T = Inr (nlargest 5 (groupby_sum product_id T)))
   \<and> (T = [] \<longrightarrow> top5_df T = Inl TypeError)"
proof -
  let ?G = "groupby_sum product_id T"
  have 1: "length (nlargest n ?G) = min n (card {k. Some k \<in> product_id ` set T})"
    by (simp only: nlargest_length groupby_sum_length)
  have 2: "sorted_wrt (\<lambda>a b. snd b \<le> snd a) (nlargest n ?G)" by (rule nlargest_sorted)
  have 3: "distinct (map fst (nlargest n ?G))"
    by (rule nlargest_distinct_keys) (rule groupby_sum_distinct)
  have 4: "\<forall>e \<in> set (nlargest n ?G).
          Some (fst e) \<in> product_id ` set T
        \<and> snd e = int64 (sum_list (map sales (filter (\<lambda>r. product_id r = Some (fst e)) T)))
        \<and> (- (2 ^ 63) \<le> sum_list (map sales (filter (\<lambda>r. product_id r = Some (fst e)) T))
           \<and> sum_list (map sales (filter (\<lambda>r. product_id r = Some (fst e)) T)) < 2 ^ 63
           \<longrightarrow> snd e = sum_list (map sales (filter (\<lambda>r. product_id r = Some (fst e)) T)))"
  proof
    fix e assume "e \<in> set (nlargest n ?G)"
    then have "e \<in> set ?G" using nlargest_set by blast
    from groupby_sum_entry[OF this] show "Some (fst e) \<in> product_id ` set T
        \<and> snd e = int64 (sum_list (map sales (filter (\<lambda>r. product_id r = Some (fst e)) T)))
        \<and> (- (2 ^ 63) \<le> sum_list (map sales (filter (\<lambda>r. product_id r = Some (fst e)) T))
           \<and> sum_list (map sales (filter (\<lambda>r. product_id r = Some (fst e)) T)) < 2 ^ 63
           \<longrightarrow> snd e = sum_list (map sales (filter (\<lambda>r. product_id r = Some (fst e)) T)))"
      using int64_exact by metis
  qed
  have 5: "fst ` set ?G = {k. Some k \<in> product_id ` set T}" by (rule groupby_sum_key_set)
  have 6: "set (nlargest n ?G) \<subseteq> set ?G" by (rule nlargest_set)
  have 7: "\<forall>e \<in> set ?G. \<forall>e' \<in> set (nlargest n ?G). e \<notin> set (nlargest n ?G) \<longrightarrow> snd e \<le> snd e'"
    using nlargest_top by blast
  have 8: "T \<noteq> [] \<longrightarrow> top5_df T = Inr (nlargest 5 ?G)" by (simp add: top5_df_def)
  have 9: "T = [] \<longrightarrow> top5_df T = Inl TypeError" by (simp add: top5_df_def)
  from 1 2 3 4 5 6 7 8 9 show ?thesis by (intro conjI)
qed

lemma groupby_sample: "groupby_sum product_id sample_table = [(''P1'', 77), (''P2'', 5)]"
  by (simp add: groupby_sum_def int64_def example_defs pandas_defs)

theorem top_n_products_witness:
  "nlargest 1 (groupby_sum product_id sample_table) = [(''P1'', 77)]
   \<and> sum_list (map sales (filter (\<lambda>r. product_id r = Some ''P1'') sample_table)) = 77
   \<and> card {k. Some k \<in> product_id ` set sample_table} = 2
   \<and> sample_table \<noteq> []
   \<and> top5_df sample_table = Inr [(''P1'', 77), (''P2'', 5)]"
proof -
  have v: "nlargest 1 (groupby_sum product_id sample_table) = [(''P1'', 77)]"
    by (simp add: groupby_sample nlargest_def)
  have s: "sum_list (map sales (filter (\<lambda>r. product_id r = Some ''P1'') sample_table)) = 77"
    by (simp add: example_defs)
  have ne: "sample_table \<noteq> []" by (simp add: sample_table_def)
  note t1 = top_n_products[of 1 sample_table]
  from t1 have "\<forall>e \<in> set (nlargest 1 (groupby_sum product_id sample_table)).
      (- (2 ^ 63) \<le> sum_list (map sales (filter (\<lambda>r. product_id r = Some (fst e)) sample_table))
       \<and> sum_list (map sales (filter (\<lambda>r. product_id r = Some (fst e)) sample_table)) < 2 ^ 63
       \<longrightarrow> snd e = sum_list (map sales (filter (\<lambda>r. product_id r = Some (fst e)) sample_table)))"
    by blast
  with v s have "snd (''P1'', 77::int)
      = sum_list (map sales (filter (\<lambda>r. product_id r = Some ''P1'') sample_table))"
    by simp
  note t5 = top_n_products[of 5 sample_table]
  from t5 have "length (nlargest 5 (groupby_sum product_id sample_table))
      = min 5 (card {k. Some k \<in> product_id ` set sample_table})"
    by blast
  then have c: "card {k. Some k \<in> product_id ` set sample_table} = 2"
    by (simp add: groupby_sample nlargest_def)
  from t5 ne have "top5_df sample_table = Inr (nlargest 5 (groupby_sum product_id sample_table))"
    by blast
  then have "top5_df sample_table = Inr [(''P1'', 77), (''P2'', 5)]"
    by (simp add: groupby_sample nlargest_def)
  with v s c ne show ?thesis by simp
qed

text \<open>
  C7 as stated fails. In \<open>overflow_table\<close> the two rows of P1 sell 2^62 each: the sum
  of their sales is 2^63, the total the chart shows for P1 is -2^63, and P1 is ranked
  below P2 with its 77. On the table with no row line 96 returns nothing: it raises.
\<close>

theorem top_n_products_counterexample:
  "top5_df overflow_table = Inr [(''P2'', 77), (''P1'', - (2 ^ 63))]
   \<and> sum_list (map sales (filter (\<lambda>r. product_id r = Some ''P1'') overflow_table)) = 2 ^ 63
   \<and> top5_df ([] :: (string, string, string) sales_record list) = Inl TypeError"
  by (simp add: top5_df_def nlargest_def groupby_sum_def int64_def example_defs pandas_defs)

subsection \<open>Store sales of the last seven days\<close>

lemma latest_date_Max:
  assumes "T \<noteq> []"
  shows "latest_date T = Some (Max (date ` set T))"
  using assms by (simp add: latest_date_def series_max_Max)

lemma last_7_days_filter:
  assumes "T \<noteq> []"
  shows "last_7_days T = filter (\<lambda>r. Max (date ` set T) - 7 \<le> date r) T"
  using assms by (simp add: last_7_days_def latest_date_Max boolean_index_map)

text \<open>
  C8. For every raw table with at least one row, the store chart groups by store and
  sums, with pandas' int64 sum, the sales of exactly the rows whose date is at least
  the table's maximum date minus 7 days: it has one entry for every store of these
  rows, and its total is the exact sum of the store's sales among them whenever that
  sum lies in the int64 range. When the maximum date is 2024-01-10, no row dated before
  2024-01-03 is among these rows, every row among them is dated 2024-01-03 or later,
  and every row of the table dated 2024-01-03 or later is among them.
\<close>

theorem store_agg_window:
  assumes "T \<noteq> []"
  shows "store_agg T = groupby_sum store_id (filter (\<lambda>r. Max (date ` set T) - 7 \<le> date r) T)
   \<and> fst ` set (store_agg T)
        = {k. Some k \<in> store_id ` {r \<in> set T. Max (date ` set T) - 7 \<le> date r}}
   \<and> distinct (map fst (store_agg T))
   \<and> (\<forall>e \<in> set (store_agg T).
         snd e = int64 (sum_list (map sales
                   (filter (\<lambda>r. store_id r = Some (fst e))
                      (filter (\<lambda>r. Max (date ` set T) - 7 \<le> date r) T))))
       \<and> (- (2 ^ 63) \<le> sum_list (map sales
                   (filter (\<lambda>r. store_id r = Some (fst e))
                      (filter (\<lambda>r. Max (date ` set T) - 7 \<le> date r) T)))
          \<and> sum_list (map sales
                   (filter (\<lambda>r. store_id r = Some (fst e))
                      (filter (\<lambda>r. Max (date ` set T) - 7 \<le> date r) T))) < 2 ^ 63
          \<longrightarrow> snd e = sum_list (map sales
                   (filter (\<lambda>r. store_id r = Some (fst e))
                      (filter (\<lambda>r. Max (date ` set T) - 7 \<le> date r) T)))))
   \<and> (Max (date ` set T) = to_datetime 2024 1 10 \<longrightarrow>
        (\<forall>r \<in> set T. date r < to_datetime 2024 1 3 \<longrightarrow> r \<notin> set (last_7_days T))
      \<and> (\<forall>r \<in> set (last_7_days T). to_datetime 2024 1 3 \<le> date r)
      \<and> (\<forall>r \<in> set T. to_datetime 2024 1 3 \<le> date r \<longrightarrow> r \<in> set (last_7_days T)))"
proof -
  let ?W = "filter (\<lambda>r. Max (date ` set T) - 7 \<le> date r) T"
  have w: "last_7_days T = ?W" using assms by (rule last_7_days_filter)
  have d: "to_datetime 2024 1 10 - 7 = to_datetime 2024 1 3"
    by (simp add: to_datetime_def)
  have 1: "store_agg T = groupby_sum store_id ?W" by (simp add: store_agg_def w)
  have "set ?W = {r \<in> set T. Max (date ` set T) - 7 \<le> date r}" by simp
  then have 2: "fst ` set (store_agg T)
        = {k. Some k \<in> store_id ` {r \<in> set T. Max (date ` set T) - 7 \<le> date r}}"
    unfolding 1 by (simp only: groupby_sum_key_set)
  have 3: "distinct (map fst (store_agg T))" unfolding 1 by (rule groupby_sum_distinct)
  have 4: "\<forall>e \<in> set (store_agg T).
         snd e = int64 (sum_list (map sales (filter (\<lambda>r. store_id r = Some (fst e)) ?W)))
       \<and> (- (2 ^ 63) \<le> sum_list (map sales (filter (\<lambda>r. store_id r = Some (fst e)) ?W))
          \<and> sum_list (map sales (filter (\<lambda>r. store_id r = Some (fst e)) ?W)) < 2 ^ 63
          \<longrightarrow> snd e = sum_list (map sales (filter (\<lambda>r. store_id r = Some (fst e)) ?W)))"
  proof
    fix e assume "e \<in> set (store_agg T)"
    then have "e \<in> set (groupby_sum store_id ?W)" by (simp only: 1)
    from groupby_sum_entry[OF this]
    show "snd e = int64 (sum_list (map sales (filter (\<lambda>r. store_id r = Some (fst e)) ?W)))
       \<and> (- (2 ^ 63) \<le> sum_list (map sales (filter (\<lambda>r. store_id r = Some (fst e)) ?W))
          \<and> sum_list (map sales (filter (\<lambda>r. store_id r = Some (fst e)) ?W)) < 2 ^ 63
          \<longrightarrow> snd e = sum_list (map sales (filter (\<lambda>r. store_id r = Some (fst e)) ?W)))"
      using int64_exact by metis
  qed
  have 5: "Max (date ` set T) = to_datetime 2024 1 10 \<longrightarrow>
        (\<forall>r \<in> set T. date r < to_datetime 2024 1 3 \<longrightarrow> r \<notin> set (last_7_days T))
      \<and> (\<forall>r \<in> set (last_7_days T). to_datetime 2024 1 3 \<le> date r)
      \<and> (\<forall>r \<in> set T. to_datetime 2024 1 3 \<le> date r \<longrightarrow> r \<in> set (last_7_days T))"
    using d by (auto simp: w)
  from 1 2 3 4 5 show ?thesis by (intro conjI)
qed

theorem store_agg_window_witness:
  "sample_table \<noteq> []
   \<and> Max (date ` set sample_table) = to_datetime 2024 1 10
   \<and> sale (to_datetime 2024 1 2) ''CA'' ''S2'' ''P2'' 5 2 1 \<notin> set (last_7_days sample_table)
   \<and> sale (to_datetime 2024 1 3) ''CA'' ''S1'' ''P1'' 30 6 2 \<in> set (last_7_days sample_table)
   \<and> store_agg sample_table = [(''S1'', 60), (''S3'', 7)]"
proof -
  have ne: "sample_table \<noteq> []" by (simp add: sample_table_def)
  have mx: "Max (date ` set sample_table) = to_datetime 2024 1 10"
    by (simp add: example_defs)
  have r2: "sale (to_datetime 2024 1 2) ''CA'' ''S2'' ''P2'' 5 2 1 \<in> set sample_table"
    and r3: "sale (to_datetime 2024 1 3) ''CA'' ''S1'' ''P1'' 30 6 2 \<in> set sample_table"
    by (simp_all add: sample_table_def)
  have d2: "date (sale (to_datetime 2024 1 2) ''CA'' ''S2'' ''P2'' 5 2 1) < to_datetime 2024 1 3"
    and d3: "to_datetime 2024 1 3 \<le> date (sale (to_datetime 2024 1 3) ''CA'' ''S1'' ''P1'' 30 6 2)"
    by (simp_all add: sale_def to_datetime_def)
  note t = store_agg_window[OF ne]
  from t mx r2 d2
  have a: "sale (to_datetime 2024 1 2) ''CA'' ''S2'' ''P2'' 5 2 1 \<notin> set (last_7_days sample_table)"
    by blast
  from t mx r3 d3
  have b: "sale (to_datetime 2024 1 3) ''CA'' ''S1'' ''P1'' 30 6 2 \<in> set (last_7_days sample_table)"
    by blast
  from t have "store_agg sample_table =
      groupby_sum store_id (filter (\<lambda>r. Max (date ` set sample_table) - 7 \<le> date r) sample_table)"
    by blast
  then have c: "store_agg sample_table = [(''S1'', 60), (''S3'', 7)]"
    unfolding mx by (simp add: groupby_sum_def int64_def example_defs pandas_defs)
  from ne mx a b c show ?thesis by blast
qed

subsection \<open>The forecast frame\<close>

lemma col_ts_df_prophet: "col_ts ''ds'' (df_prophet fdf) = map date fdf"
  by (induction fdf) (simp_all add: col_ts_def df_prophet_def)

lemma col_num_df_prophet: "col_num ''y'' (df_prophet fdf) = map (\<lambda>r. of_int (sales r)) fdf"
  by (induction fdf) (simp_all add: col_num_def df_prophet_def)

lemma col_ts_future: "col_ts ''ds'' (map (\<lambda>d. [(''ds'', Timestamp d)]) ds) = ds"
  by (induction ds) (simp_all add: col_ts_def)

lemma predict_dates_rows:
  assumes "predict_dates f ds = Inr rs"
  shows "rs = map (\<lambda>d. [(''ds'', Timestamp d), (''yhat'', Number (projr (f d)))]) ds"
  using assms
  by (induction ds arbitrary: rs) (auto split: sum.splits)

lemma predict_dates_ok:
  assumes "predict_dates f ds = Inr rs" and "d \<in> set ds"
  shows "\<exists>v. f d = Inr v"
  using assms
  by (induction ds arbitrary: rs) (auto split: sum.splits)

lemma filter_eq_distinct:
  assumes "distinct xs" and "x \<in> set xs"
  shows "filter (\<lambda>y. y = x) xs = [x]"
  using assms by (induction xs) (auto simp: filter_empty_conv)

lemma merge_rows:
  assumes "distinct ds" and "set ls \<subseteq> set ds"
  shows "pd_merge ''ds'' (map (\<lambda>d. [(''ds'', Timestamp d)]) ls)
           (map (\<lambda>d. [(''ds'', Timestamp d), (''yhat'', Number (g d))]) ds)
         = map (\<lambda>d. [(''ds'', Timestamp d), (''yhat'', Number (g d))]) ls"
  using assms(2)
proof (induction ls)
  case Nil
  then show ?case by (simp add: pd_merge_def)
next
  case (Cons l ls)
  then have l: "l \<in> set ds" by simp
  have "filter (\<lambda>r. map_of r ''ds'' = Some (Timestamp l))
          (map (\<lambda>d. [(''ds'', Timestamp d), (''yhat'', Number (g d))]) ds)
        = map (\<lambda>d. [(''ds'', Timestamp d), (''yhat'', Number (g d))]) (filter (\<lambda>d. d = l) ds)"
    by (simp add: filter_map comp_def)
  also have "\<dots> = [[(''ds'', Timestamp l), (''yhat'', Number (g l))]]"
    using filter_eq_distinct[OF assms(1) l] by simp
  finally have one: "filter (\<lambda>r. map_of r ''ds'' = Some (Timestamp l))
          (map (\<lambda>d. [(''ds'', Timestamp d), (''yhat'', Number (g d))]) ds)
        = [[(''ds'', Timestamp l), (''yhat'', Number (g l))]]" .
  from Cons have "pd_merge ''ds'' (map (\<lambda>d. [(''ds'', Timestamp d)]) ls)
           (map (\<lambda>d. [(''ds'', Timestamp d), (''yhat'', Number (g d))]) ds)
         = map (\<lambda>d. [(''ds'', Timestamp d), (''yhat'', Number (g d))]) ls" by simp
  then show ?case using one by (simp add: pd_merge_def)
qed

lemma map_add_upt_upto: "map (\<lambda>k. m + int k) [1..<Suc n] = [m + 1 .. m + int n]"
proof (induction n)
  case 0
  then show ?case by simp
next
  case (Suc n)
  have "[m + 1 .. m + int (Suc n)] = [m + 1 .. m + int n] @ [m + int (Suc n)]"
    using upto_rec2[of "m + 1" "m + int (Suc n)"] by simp
  with Suc show ?case by simp
qed

lemma future_dates_upto:
  assumes "hist \<noteq> []"
  shows "future_dates hist n = [Max (set hist) + 1 .. Max (set hist) + int n]"
  unfolding future_dates_def series_max_Max[OF assms]
  by (simp only: option.case map_add_upt_upto)

lemma all_dates_distinct:
  assumes "fdf \<noteq> []"
  shows "distinct (all_dates fdf)"
proof -
  have "\<forall>d \<in> set (sort (unique (map date fdf))). d \<le> Max (date ` set fdf)"
    by (simp add: set_unique)
  then show ?thesis
    by (auto simp: all_dates_def distinct_unique)
qed

lemma forecast_series_rows:
  assumes "forecast_series P fdf = Inr mrg"
  shows "2 \<le> length fdf
    \<and> (\<exists>f. P (df_prophet fdf) = Inr f
         \<and> (\<forall>d \<in> set (all_dates fdf). \<exists>v. f d = Inr v)
         \<and> mrg = map (\<lambda>d. [(''ds'', Timestamp d), (''yhat'', Number (projr (f d)))]) (all_dates fdf))"
proof -
  from assms have len: "2 \<le> length fdf"
    by (auto simp: forecast_series_def fit_def df_prophet_def split: if_splits)
  then have ne: "fdf \<noteq> []" by auto
  from assms len obtain f where f: "P (df_prophet fdf) = Inr f"
    by (auto simp: forecast_series_def fit_def df_prophet_def split: if_splits sum.splits)
  let ?hist = "sort (unique (map date fdf))"
  have hne: "?hist \<noteq> []" using ne by (metis length_sort length_0_conv set_unique set_empty map_is_Nil_conv)
  have mx: "Max (set ?hist) = Max (date ` set fdf)" by (simp add: set_unique)
  have fut: "?hist @ future_dates ?hist 30 = all_dates fdf"
    using future_dates_upto[OF hne, of 30] by (simp add: all_dates_def set_unique)
  from len f have m: "fit P (df_prophet fdf) = Inr \<lparr>history_dates = ?hist, yhat_at = f\<rparr>"
    by (simp add: fit_def df_prophet_def col_ts_df_prophet[unfolded df_prophet_def])
  let ?future = "map (\<lambda>d. [(''ds'', Timestamp d)]) (all_dates fdf)"
  have fu: "make_future_dataframe \<lparr>history_dates = ?hist, yhat_at = f\<rparr> 30 = ?future"
    by (simp add: make_future_dataframe_def fut del: map_append)
  from assms m fu obtain fc where fc: "predict_dates f (all_dates fdf) = Inr fc"
    and mrg: "mrg = merged ?future fc"
    by (auto simp: forecast_series_def predict_def col_ts_future split: sum.splits)
  from predict_dates_rows[OF fc]
  have rows: "fc = map (\<lambda>d. [(''ds'', Timestamp d), (''yhat'', Number (projr (f d)))]) (all_dates fdf)" .
  have "mrg = map (\<lambda>d. [(''ds'', Timestamp d), (''yhat'', Number (projr (f d)))]) (all_dates fdf)"
    unfolding mrg merged_def rows
    by (rule merge_rows[OF all_dates_distinct[OF ne]]) simp
  moreover have "\<forall>d \<in> set (all_dates fdf). \<exists>v. f d = Inr v"
    using predict_dates_ok[OF fc] by blast
  ultimately show ?thesis using len f by blast
qed

lemma predict_dates_constant:
  "predict_dates (\<lambda>d. Inr v) ds = Inr (map (\<lambda>d. [(''ds'', Timestamp d), (''yhat'', Number v)]) ds)"
  by (induction ds) simp_all

lemma forecast_series_constant:
  assumes "2 \<le> length fdf"
  shows "forecast_series (constant_prophet v) fdf =
           Inr (map (\<lambda>d. [(''ds'', Timestamp d), (''yhat'', Number v)]) (all_dates fdf))"
proof -
  from assms have ne: "fdf \<noteq> []" by auto
  let ?hist = "sort (unique (map date fdf))"
  have hne: "?hist \<noteq> []"
    using ne by (metis length_sort length_0_conv set_unique set_empty map_is_Nil_conv)
  have fut: "?hist @ future_dates ?hist 30 = all_dates fdf"
    using future_dates_upto[OF hne, of 30] by (simp add: all_dates_def set_unique)
  have m: "fit (constant_prophet v) (df_prophet fdf)
      = Inr \<lparr>history_dates = ?hist, yhat_at = (\<lambda>d. Inr v)\<rparr>"
    using assms by (simp add: fit_def constant_prophet_def col_ts_df_prophet) (simp add: df_prophet_def)
  have fu: "make_future_dataframe \<lparr>history_dates = ?hist, yhat_at = (\<lambda>d. Inr v)\<rparr> 30
      = map (\<lambda>d. [(''ds'', Timestamp d)]) (all_dates fdf)"
    by (simp add: make_future_dataframe_def fut del: map_append)
  have "merged (map (\<lambda>d. [(''ds'', Timestamp d)]) (all_dates fdf))
          (map (\<lambda>d. [(''ds'', Timestamp d), (''yhat'', Number v)]) (all_dates fdf))
        = map (\<lambda>d. [(''ds'', Timestamp d), (''yhat'', Number v)]) (all_dates fdf)"
    unfolding merged_def by (rule merge_rows[OF all_dates_distinct[OF ne]]) simp
  then show ?thesis
    by (simp add: forecast_series_def m fu predict_def col_ts_future predict_dates_constant)
qed

lemma col_ts_rows:
  "col_ts ''ds'' (map (\<lambda>d. [(''ds'', Timestamp d), (''yhat'', Number (g d))]) ds) = ds"
  by (induction ds) (simp_all add: col_ts_def)


lemma three_rows_dates: "all_dates three_rows = [to_datetime 2024 1 1 .. to_datetime 2024 2 2]"
proof -
  have "all_dates three_rows = [19723, 19724, 19725] @ [19726 .. 19755]"
    by (simp add: all_dates_def unique_def three_rows_def sale_def to_datetime_def)
  also have "\<dots> = [19723 .. 19755]"
    by (simp add: upto_rec1[of 19723] upto_rec1[of 19724] upto_rec1[of 19725])
  finally show ?thesis by (simp add: to_datetime_def)
qed

text \<open>
  C2, as the code has it. When fit and predict succeed on a filtered frame, the dates of
  the merged forecast frame are the frame's distinct dates in ascending order followed
  by the 30 days after its maximum date. They are the contiguous daily sequence from
  the minimum date to the maximum date plus 30 days exactly when every day between the
  minimum and the maximum date occurs in the frame: a gap in the history stays a gap.
\<close>

theorem forecast_dates:
  assumes "forecast_series P fdf = Inr mrg"
  shows "col_ts ''ds'' mrg =
           sort (unique (map date fdf)) @ [Max (date ` set fdf) + 1 .. Max (date ` set fdf) + 30]
   \<and> (col_ts ''ds'' mrg = [Min (date ` set fdf) .. Max (date ` set fdf) + 30]
        \<longleftrightarrow> (\<forall>d. Min (date ` set fdf) \<le> d \<and> d \<le> Max (date ` set fdf) \<longrightarrow> d \<in> date ` set fdf))"
proof -
  let ?S = "date ` set fdf"
  let ?a = "Min ?S" and ?b = "Max ?S"
  let ?hist = "sort (unique (map date fdf))"
  from forecast_series_rows[OF assms] have len: "2 \<le> length fdf"
    and ds: "col_ts ''ds'' mrg = all_dates fdf"
    by (auto simp: col_ts_rows)
  then have ne: "?S \<noteq> {}" and fin: "finite ?S" by auto
  have ab: "?a \<le> ?b" using ne fin by simp
  have h: "sorted ?hist" "distinct ?hist" "set ?hist = ?S"
    by (simp_all add: distinct_unique set_unique)
  have 1: "col_ts ''ds'' mrg = ?hist @ [?b + 1 .. ?b + 30]"
    by (simp add: ds all_dates_def)
  have 2: "col_ts ''ds'' mrg = [?a .. ?b + 30]" if gap: "\<forall>d. ?a \<le> d \<and> d \<le> ?b \<longrightarrow> d \<in> ?S"
  proof -
    have "?S = {?a .. ?b}"
    proof
      show "?S \<subseteq> {?a .. ?b}"
      proof
        fix d assume "d \<in> ?S"
        then have "?a \<le> d" "d \<le> ?b" using fin by (simp_all only: Min_le Max_ge)
        then show "d \<in> {?a .. ?b}" by (simp only: atLeastAtMost_iff)
      qed
      show "{?a .. ?b} \<subseteq> ?S"
      proof
        fix d assume "d \<in> {?a .. ?b}"
        then have "?a \<le> d \<and> d \<le> ?b" by (simp only: atLeastAtMost_iff)
        with gap show "d \<in> ?S" by blast
      qed
    qed
    then have "set ?hist = set [?a .. ?b]" by (simp only: h(3) set_upto)
    with h(1,2) have "?hist = [?a .. ?b]"
      by (intro sorted_distinct_set_unique) (simp_all only: sorted_upto distinct_upto)
    moreover have "[?a .. ?b + 30] = [?a .. ?b] @ [?b + 1 .. ?b + 30]"
      by (rule upto_split2) (use ab in simp_all)
    ultimately have "?hist @ [?b + 1 .. ?b + 30] = [?a .. ?b + 30]" by (simp only:)
    with 1 show ?thesis by (rule trans)
  qed
  have 3: "\<forall>d. ?a \<le> d \<and> d \<le> ?b \<longrightarrow> d \<in> ?S" if eq: "col_ts ''ds'' mrg = [?a .. ?b + 30]"
  proof (intro allI impI)
    fix d assume d: "?a \<le> d \<and> d \<le> ?b"
    from 1[symmetric] eq have "?hist @ [?b + 1 .. ?b + 30] = [?a .. ?b + 30]" by (rule trans)
    then have "set (?hist @ [?b + 1 .. ?b + 30]) = set [?a .. ?b + 30]" by (rule arg_cong)
    then have u: "?S \<union> {?b + 1 .. ?b + 30} = {?a .. ?b + 30}"
      by (simp only: set_append h(3) set_upto)
    from d have "d \<in> {?a .. ?b + 30}" by simp
    with u have "d \<in> ?S \<union> {?b + 1 .. ?b + 30}" by (simp only:)
    moreover from d have "d \<notin> {?b + 1 .. ?b + 30}" by simp
    ultimately show "d \<in> ?S" by blast
  qed
  from 1 2 3 show ?thesis by blast
qed

theorem forecast_dates_witness:
  "forecast_series (constant_prophet 7) three_rows =
     Inr (map (\<lambda>d. [(''ds'', Timestamp d), (''yhat'', Number 7)])
            [to_datetime 2024 1 1 .. to_datetime 2024 2 2])
   \<and> col_ts ''ds'' (map (\<lambda>d. [(''ds'', Timestamp d), (''yhat'', Number 7)])
            [to_datetime 2024 1 1 .. to_datetime 2024 2 2])
       = sort (unique (map date three_rows)) @
           [Max (date ` set three_rows) + 1 .. Max (date ` set three_rows) + 30]
   \<and> Min (date ` set three_rows) = to_datetime 2024 1 1
   \<and> Max (date ` set three_rows) + 30 = to_datetime 2024 2 2"
proof -
  have "2 \<le> length three_rows" by (simp add: three_rows_def)
  then have f: "forecast_series (constant_prophet 7) three_rows =
     Inr (map (\<lambda>d. [(''ds'', Timestamp d), (''yhat'', Number 7)])
            [to_datetime 2024 1 1 .. to_datetime 2024 2 2])"
    using forecast_series_constant[of three_rows 7] by (simp only: three_rows_dates)
  have a: "Min (date ` set three_rows) = to_datetime 2024 1 1"
    and b: "Max (date ` set three_rows) + 30 = to_datetime 2024 2 2"
    by (simp_all add: three_rows_def sale_def to_datetime_def)
  from forecast_dates[OF f] f a b show ?thesis by blast
qed

lemma col_ts_constant_rows:
  "col_ts ''ds'' (map (\<lambda>d. [(''ds'', Timestamp d), (''yhat'', Number v)]) ds) = ds"
  by (induction ds) (simp_all add: col_ts_def)

lemma filtered_sample:
  "filtered_df sample_table (Some ''CA'') (Some ''S1'') (Some ''P1'') =
     [sale (to_datetime 2024 1 1) ''CA'' ''S1'' ''P1'' 10 4 0,
      sale (to_datetime 2024 1 3) ''CA'' ''S1'' ''P1'' 30 6 2,
      sale (to_datetime 2024 1 3) ''CA'' ''S1'' ''P1'' 30 6 2]"
  by (simp add: filtered_df_def example_defs pandas_defs)

lemma all_dates_sample:
  "all_dates (filtered_df sample_table (Some ''CA'') (Some ''S1'') (Some ''P1'')) =
     [to_datetime 2024 1 1, to_datetime 2024 1 3] @ [to_datetime 2024 1 4 .. to_datetime 2024 2 2]"
  unfolding filtered_sample by (simp add: all_dates_def unique_def sale_def to_datetime_def)


text \<open>
  C2 as stated fails: the rows of (CA, S1, P1) in the sample table are dated 2024-01-01
  and 2024-01-03, two distinct dates; the forecast frame has no row for 2024-01-02.
\<close>

theorem forecast_dates_counterexample:
  "length (unique (map date (filtered_df sample_table (Some ''CA'') (Some ''S1'') (Some ''P1'')))) = 2
   \<and> (\<exists>mrg. forecast_series (constant_prophet 7) (filtered_df sample_table (Some ''CA'') (Some ''S1'') (Some ''P1'')) = Inr mrg
        \<and> col_ts ''ds'' mrg =
            [to_datetime 2024 1 1, to_datetime 2024 1 3] @ [to_datetime 2024 1 4 .. to_datetime 2024 2 2]
        \<and> to_datetime 2024 1 2 \<notin> set (col_ts ''ds'' mrg)
        \<and> col_ts ''ds'' mrg \<noteq> [to_datetime 2024 1 1 .. to_datetime 2024 2 2])"
proof -
  let ?fdf = "filtered_df sample_table (Some ''CA'') (Some ''S1'') (Some ''P1'')"
  let ?mrg = "map (\<lambda>d. [(''ds'', Timestamp d), (''yhat'', Number 7)]) (all_dates ?fdf)"
  have n: "length (unique (map date ?fdf)) = 2"
    unfolding filtered_sample by (simp add: unique_def sale_def to_datetime_def)
  have "2 \<le> length ?fdf" unfolding filtered_sample by simp
  then have f: "forecast_series (constant_prophet 7) ?fdf = Inr ?mrg"
    by (rule forecast_series_constant)
  have c: "col_ts ''ds'' ?mrg =
      [to_datetime 2024 1 1, to_datetime 2024 1 3] @ [to_datetime 2024 1 4 .. to_datetime 2024 2 2]"
    by (simp only: col_ts_constant_rows all_dates_sample)
  have m: "to_datetime 2024 1 2 \<notin> set (col_ts ''ds'' ?mrg)"
    unfolding c by (simp add: to_datetime_def)
  have "to_datetime 2024 1 2 \<in> set [to_datetime 2024 1 1 .. to_datetime 2024 2 2]"
    by (simp add: to_datetime_def)
  with m have d: "col_ts ''ds'' ?mrg \<noteq> [to_datetime 2024 1 1 .. to_datetime 2024 2 2]"
    by metis
  from n f c m d show ?thesis by blast
qed

text \<open>
  C3, as the code has it. The merge is an inner join on \<open>ds\<close> of the frame of future
  dates, whose only column is \<open>ds\<close>, with the predictions: the merged frame has one row
  per date of that frame, in order, and every row holds the date and the value
  predicted for it and nothing else. No row carries an actual value, on a date of the
  history as on a future date.
\<close>

theorem merged_rows:
  assumes "forecast_series P fdf = Inr mrg"
  shows "\<exists>f. P (df_prophet fdf) = Inr f
    \<and> mrg = map (\<lambda>d. [(''ds'', Timestamp d), (''yhat'', Number (projr (f d)))])
              (sort (unique (map date fdf)) @ [Max (date ` set fdf) + 1 .. Max (date ` set fdf) + 30])
    \<and> (\<forall>d \<in> set (sort (unique (map date fdf)) @ [Max (date ` set fdf) + 1 .. Max (date ` set fdf) + 30]).
          f d = Inr (projr (f d)))
    \<and> (\<forall>r \<in> set mrg. map fst r = [''ds'', ''yhat''] \<and> map_of r ''y'' = None)"
proof -
  from forecast_series_rows[OF assms] obtain f where f: "P (df_prophet fdf) = Inr f"
    and ok: "\<forall>d \<in> set (all_dates fdf). \<exists>v. f d = Inr v"
    and rows: "mrg = map (\<lambda>d. [(''ds'', Timestamp d), (''yhat'', Number (projr (f d)))]) (all_dates fdf)"
    by blast
  from ok have ok': "\<forall>d \<in> set (all_dates fdf). f d = Inr (projr (f d))" by fastforce
  from rows have cols: "\<forall>r \<in> set mrg. map fst r = [''ds'', ''yhat''] \<and> map_of r ''y'' = None"
    by auto
  from f rows ok' cols show ?thesis unfolding all_dates_def by blast
qed


theorem merged_rows_witness:
  "forecast_series (constant_prophet 7) three_rows =
     Inr (map (\<lambda>d. [(''ds'', Timestamp d), (''yhat'', Number 7)])
            [to_datetime 2024 1 1 .. to_datetime 2024 2 2])
   \<and> (\<exists>f. constant_prophet 7 (df_prophet three_rows) = Inr f
        \<and> map (\<lambda>d. [(''ds'', Timestamp d), (''yhat'', Number 7)])
            [to_datetime 2024 1 1 .. to_datetime 2024 2 2]
          = map (\<lambda>d. [(''ds'', Timestamp d), (''yhat'', Number (projr (f d)))])
              (sort (unique (map date three_rows)) @
                [Max (date ` set three_rows) + 1 .. Max (date ` set three_rows) + 30]))"
proof -
  have "2 \<le> length three_rows" by (simp add: three_rows_def)
  then have f: "forecast_series (constant_prophet 7) three_rows =
     Inr (map (\<lambda>d. [(''ds'', Timestamp d), (''yhat'', Number 7)])
            [to_datetime 2024 1 1 .. to_datetime 2024 2 2])"
    using forecast_series_constant[of three_rows 7] by (simp only: three_rows_dates)
  from merged_rows[OF f] f show ?thesis by blast
qed


text \<open>
  C3 as stated fails: in the three-row scenario 2024-01-01 is a date of the actual
  series, with sales 10, and a date of the predictions, yet the merged frame's only row
  of that date holds the date and the predicted value 7.
\<close>

theorem merged_rows_counterexample:
  "hd (df_prophet three_rows) = [(''ds'', Timestamp (to_datetime 2024 1 1)), (''y'', Number 10)]
   \<and> (\<exists>mrg. forecast_series (constant_prophet 7) three_rows = Inr mrg
        \<and> filter (\<lambda>r. map_of r ''ds'' = Some (Timestamp (to_datetime 2024 1 1))) mrg
            = [[(''ds'', Timestamp (to_datetime 2024 1 1)), (''yhat'', Number 7)]])"
proof -
  let ?mrg = "map (\<lambda>d. [(''ds'', Timestamp d), (''yhat'', Number 7)])
            [to_datetime 2024 1 1 .. to_datetime 2024 2 2]"
  have a: "hd (df_prophet three_rows) = [(''ds'', Timestamp (to_datetime 2024 1 1)), (''y'', Number 10)]"
    by (simp add: df_prophet_def three_rows_def sale_def)
  have "2 \<le> length three_rows" by (simp add: three_rows_def)
  then have f: "forecast_series (constant_prophet 7) three_rows = Inr ?mrg"
    using forecast_series_constant[of three_rows 7] by (simp only: three_rows_dates)
  have "to_datetime 2024 1 1 \<in> set [to_datetime 2024 1 1 .. to_datetime 2024 2 2]"
    by (simp add: to_datetime_def)
  then have "filter (\<lambda>d. d = to_datetime 2024 1 1) [to_datetime 2024 1 1 .. to_datetime 2024 2 2]
      = [to_datetime 2024 1 1]"
    by (intro filter_eq_distinct) simp_all
  then have b: "filter (\<lambda>r. map_of r ''ds'' = Some (Timestamp (to_datetime 2024 1 1))) ?mrg
            = [[(''ds'', Timestamp (to_datetime 2024 1 1)), (''yhat'', Number 7)]]"
    by (simp add: filter_map comp_def)
  from a f b show ?thesis by blast
qed

subsection \<open>Cutoff and forecast table\<close>

lemma cutoff_Max:
  assumes "fdf \<noteq> []"
  shows "cutoff (df_prophet fdf) = Some (Max (date ` set fdf))"
  using assms by (simp add: cutoff_def col_ts_df_prophet series_max_Max)

lemma display_df_filter:
  "display_df mrg (Some c) =
     rename [(''ds'', ''Date''), (''yhat'', ''Forecasted Sales'')]
       (filter (\<lambda>r. case map_of r ''ds'' of Some (Timestamp d) \<Rightarrow> c < d | _ \<Rightarrow> False) mrg)"
proof -
  have "(\<lambda>r. case (map_of r ''ds'', Some c) of
              (Some (Timestamp d), Some c) \<Rightarrow> c < d | _ \<Rightarrow> False)
      = (\<lambda>r. case map_of r ''ds'' of Some (Timestamp d) \<Rightarrow> c < d | _ \<Rightarrow> False)"
    by (auto split: option.splits cell.splits)
  then show ?thesis by (simp add: display_df_def boolean_index_map)
qed

lemma future_rows_after:
  assumes "\<forall>d \<in> set hs. d \<le> c"
  shows "filter (\<lambda>r. case map_of r ''ds'' of Some (Timestamp d) \<Rightarrow> c < d | _ \<Rightarrow> False)
           (map (\<lambda>d. [(''ds'', Timestamp d), (''yhat'', Number (g d))]) (hs @ [c + 1 .. c + n]))
         = map (\<lambda>d. [(''ds'', Timestamp d), (''yhat'', Number (g d))]) [c + 1 .. c + n]"
proof -
  have "filter (\<lambda>d. c < d) hs = []" using assms by (auto simp: filter_empty_conv)
  moreover have "filter (\<lambda>d. c < d) [c + 1 .. c + n] = [c + 1 .. c + n]"
    by (simp add: filter_id_conv)
  ultimately have "filter (\<lambda>d. c < d) (hs @ [c + 1 .. c + n]) = [c + 1 .. c + n]" by simp
  then show ?thesis by (simp add: filter_map comp_def del: map_append filter_append)
qed


text \<open>
  C4. For every filtered frame with at least one row, the cutoff is the maximum date of
  the frame, a date of one of its rows, and none of the 30 future dates; the table's
  frame is, with its columns renamed, exactly the rows of the merged frame whose date
  is later than the cutoff, and for the merged frame of a successful forecast these
  are the rows of the 30 days after the cutoff.
\<close>

theorem cutoff_and_table:
  assumes "fdf \<noteq> []"
  shows "cutoff (df_prophet fdf) = Some (Max (date ` set fdf))
   \<and> Max (date ` set fdf) \<in> date ` set fdf
   \<and> Max (date ` set fdf) \<notin> set (future_dates (sort (unique (map date fdf))) 30)
   \<and> (\<forall>mrg. display_df mrg (cutoff (df_prophet fdf)) =
          rename [(''ds'', ''Date''), (''yhat'', ''Forecasted Sales'')]
            (filter (\<lambda>r. case map_of r ''ds'' of
                           Some (Timestamp d) \<Rightarrow> Max (date ` set fdf) < d
                         | _ \<Rightarrow> False) mrg))
   \<and> (\<forall>P mrg. forecast_series P fdf = Inr mrg \<longrightarrow>
          col_ts ''Date'' (display_df mrg (cutoff (df_prophet fdf))) =
            [Max (date ` set fdf) + 1 .. Max (date ` set fdf) + 30])"
proof -
  let ?c = "Max (date ` set fdf)"
  let ?hist = "sort (unique (map date fdf))"
  from assms have ne: "date ` set fdf \<noteq> {}" by simp
  have 1: "cutoff (df_prophet fdf) = Some ?c" using assms by (rule cutoff_Max)
  have 2: "?c \<in> date ` set fdf" using ne by (intro Max_in) simp_all
  have hne: "?hist \<noteq> []"
    using assms by (metis length_sort length_0_conv set_unique set_empty map_is_Nil_conv)
  have "future_dates ?hist 30 = [?c + 1 .. ?c + 30]"
    using future_dates_upto[OF hne, of 30] by (simp add: set_unique)
  then have 3: "?c \<notin> set (future_dates ?hist 30)" by simp
  have 4: "\<forall>mrg. display_df mrg (cutoff (df_prophet fdf)) =
          rename [(''ds'', ''Date''), (''yhat'', ''Forecasted Sales'')]
            (filter (\<lambda>r. case map_of r ''ds'' of Some (Timestamp d) \<Rightarrow> ?c < d | _ \<Rightarrow> False) mrg)"
    by (simp add: 1 display_df_filter)
  have 5: "\<forall>P mrg. forecast_series P fdf = Inr mrg \<longrightarrow>
          col_ts ''Date'' (display_df mrg (cutoff (df_prophet fdf))) = [?c + 1 .. ?c + 30]"
  proof (intro allI impI)
    fix P mrg assume "forecast_series P fdf = Inr mrg"
    from forecast_series_rows[OF this] obtain f :: predictor
      where "mrg = map (\<lambda>d. [(''ds'', Timestamp d), (''yhat'', Number (projr (f d)))])
                     (all_dates fdf)"
      by blast
    then have rows: "mrg = map (\<lambda>d. [(''ds'', Timestamp d), (''yhat'', Number (projr (f d)))])
                          (?hist @ [?c + 1 .. ?c + 30])"
      by (simp only: all_dates_def)
    have le: "\<forall>d \<in> set ?hist. d \<le> ?c" by (simp add: set_unique)
    have "filter (\<lambda>r. case map_of r ''ds'' of Some (Timestamp d) \<Rightarrow> ?c < d | _ \<Rightarrow> False) mrg
        = map (\<lambda>d. [(''ds'', Timestamp d), (''yhat'', Number (projr (f d)))]) [?c + 1 .. ?c + 30]"
      unfolding rows using le by (rule future_rows_after)
    then have "display_df mrg (cutoff (df_prophet fdf)) =
        map (\<lambda>d. [(''Date'', Timestamp d), (''Forecasted Sales'', Number (projr (f d)))])
          [?c + 1 .. ?c + 30]"
      by (simp add: 1 display_df_filter rename_def comp_def)
    then show "col_ts ''Date'' (display_df mrg (cutoff (df_prophet fdf))) = [?c + 1 .. ?c + 30]"
      by (simp add: col_ts_def comp_def)
  qed
  from 1 2 3 4 5 show ?thesis by blast
qed

theorem cutoff_and_table_witness:
  "three_rows \<noteq> []
   \<and> cutoff (df_prophet three_rows) = Some (to_datetime 2024 1 3)
   \<and> col_ts ''Date'' (display_df
         (map (\<lambda>d. [(''ds'', Timestamp d), (''yhat'', Number 7)])
            [to_datetime 2024 1 1 .. to_datetime 2024 2 2])
         (cutoff (df_prophet three_rows)))
       = [to_datetime 2024 1 4 .. to_datetime 2024 2 2]"
proof -
  have ne: "three_rows \<noteq> []" by (simp add: three_rows_def)
  have mx: "Max (date ` set three_rows) = to_datetime 2024 1 3"
    by (simp add: three_rows_def sale_def to_datetime_def)
  have e1: "to_datetime 2024 1 3 + 1 = to_datetime 2024 1 4"
    and e2: "to_datetime 2024 1 3 + 30 = to_datetime 2024 2 2"
    by (simp_all add: to_datetime_def)
  have "2 \<le> length three_rows" by (simp add: three_rows_def)
  then have f: "forecast_series (constant_prophet 7) three_rows =
     Inr (map (\<lambda>d. [(''ds'', Timestamp d), (''yhat'', Number 7)])
            [to_datetime 2024 1 1 .. to_datetime 2024 2 2])"
    using forecast_series_constant[of three_rows 7] by (simp only: three_rows_dates)
  note t = cutoff_and_table[OF ne, unfolded mx e1 e2]
  from t have c: "cutoff (df_prophet three_rows) = Some (to_datetime 2024 1 3)" by blast
  from t f have "col_ts ''Date'' (display_df
         (map (\<lambda>d. [(''ds'', Timestamp d), (''yhat'', Number 7)])
            [to_datetime 2024 1 1 .. to_datetime 2024 2 2])
         (cutoff (df_prophet three_rows)))
       = [to_datetime 2024 1 4 .. to_datetime 2024 2 2]"
    by blast
  with ne c show ?thesis by blast
qed

subsection \<open>Runs that raise\<close>

lemma script_latest_error:
  assumes "latest (filtered_df T st so pr) = Inl e"
  shows "script P T st so pr = \<lparr>rendered = [], raised = Some e\<rparr>"
  using assms by (simp add: script_def)

text \<open>
  C5, as the code has it. When no row of the table matches the selection, the
  latest-row lookup raises pandas' IndexError; nothing catches it, and the run ends
  there with no metric, chart or table rendered. The script has no EmptyInputError and
  no handler.
\<close>

theorem empty_selection_crash:
  assumes "filtered_df T st so pr = []"
  shows "latest (filtered_df T st so pr) = Inl IndexError
    \<and> script P T st so pr = \<lparr>rendered = [], raised = Some IndexError\<rparr>"
proof -
  from assms have l: "latest (filtered_df T st so pr) = Inl IndexError"
    by (simp add: latest_empty)
  then have "script P T st so pr = \<lparr>rendered = [], raised = Some IndexError\<rparr>"
    by (rule script_latest_error)
  with l show ?thesis by blast
qed

theorem empty_selection_crash_witness:
  "filtered_df missing_product_table (Some ''CA'') (Some ''S1'') None = []
   \<and> script failing_prophet missing_product_table (Some ''CA'') (Some ''S1'') None
       = \<lparr>rendered = [], raised = Some IndexError\<rparr>"
proof -
  have e: "filtered_df missing_product_table (Some ''CA'') (Some ''S1'') None = []"
    by (rule filtered_df_missing)
  from empty_selection_crash[OF e, of failing_prophet] e show ?thesis by blast
qed

text \<open>
  C5 as stated fails on inputs the script receives. In \<open>missing_product_table\<close> the
  boxes offer the state CA, the store S1 and, as the only product, the missing value;
  no row matches it. On the table with no row every box is empty and returns \<open>None\<close>.
  In both runs the lookup's error is IndexError, not EmptyInputError, and it ends the
  run unhandled with nothing rendered.
\<close>

theorem empty_selection_counterexample:
  "states missing_product_table = [Some ''CA'']
   \<and> stores missing_product_table (Some ''CA'') = [Some ''S1'']
   \<and> products missing_product_table (Some ''CA'') (Some ''S1'') = [None]
   \<and> filtered_df missing_product_table (Some ''CA'') (Some ''S1'') None = []
   \<and> latest (filtered_df missing_product_table (Some ''CA'') (Some ''S1'') None) = Inl IndexError
   \<and> latest (filtered_df missing_product_table (Some ''CA'') (Some ''S1'') None)
        \<noteq> Inl EmptyInputError
   \<and> script (constant_prophet 7) missing_product_table (Some ''CA'') (Some ''S1'') None
        = \<lparr>rendered = [], raised = Some IndexError\<rparr>
   \<and> states ([] :: (string, string, string) sales_record list) = []
   \<and> script (constant_prophet 7) ([] :: (string, string, string) sales_record list)
          None None None
        = \<lparr>rendered = [], raised = Some IndexError\<rparr>"
proof -
  have a: "states missing_product_table = [Some ''CA'']"
    by (simp add: states_def example_defs pandas_defs)
  have b: "stores missing_product_table (Some ''CA'') = [Some ''S1'']"
    by (simp add: stores_def example_defs pandas_defs)
  have c: "products missing_product_table (Some ''CA'') (Some ''S1'') = [None]"
    by (simp add: products_def example_defs pandas_defs)
  have e: "filtered_df missing_product_table (Some ''CA'') (Some ''S1'') None = []"
    by (rule filtered_df_missing)
  have s1: "script (constant_prophet 7) missing_product_table (Some ''CA'') (Some ''S1'') None
        = \<lparr>rendered = [], raised = Some IndexError\<rparr>"
    by (simp add: script_def e latest_empty)
  have s2: "script (constant_prophet 7) ([] :: (string, string, string) sales_record list)
          None None None
        = \<lparr>rendered = [], raised = Some IndexError\<rparr>"
    by (simp add: script_def filtered_df_missing latest_empty)
  have d: "states ([] :: (string, string, string) sales_record list) = []"
    by (simp add: states_def unique_def)
  from a b c e s1 s2 d show ?thesis by (simp add: latest_empty)
qed

text \<open>
  C6, as the code has it. When the filtered frame has a row and fit or predict raises,
  the run ends at that statement: the four metrics, rendered before it, stay on the
  page, and neither the forecast chart nor the top-products chart, the store chart or
  the forecast table is rendered.
\<close>

theorem forecast_failure_stops_run:
  assumes "latest (filtered_df T st so pr) = Inr l"
    and "forecast_series P (filtered_df T st so pr) = Inl e"
  shows "script P T st so pr =
      \<lparr>rendered = [Metrics (sales l) (avg_margin (filtered_df T st so pr))
                     (avg_outstock (filtered_df T st so pr)) (avg_sales (filtered_df T st so pr))],
       raised = Some e\<rparr>
    \<and> (\<forall>t. Top5Chart t \<notin> set (rendered (script P T st so pr)))
    \<and> (\<forall>s. StoreChart s \<notin> set (rendered (script P T st so pr)))"
  using assms by (simp add: script_def Let_def)

theorem forecast_failure_stops_run_witness:
  "latest (filtered_df sample_table (Some ''NY'') (Some ''S3'') (Some ''P1''))
      = Inr (sale (to_datetime 2024 1 10) ''NY'' ''S3'' ''P1'' 7 3 0)
   \<and> forecast_series (constant_prophet 7)
        (filtered_df sample_table (Some ''NY'') (Some ''S3'') (Some ''P1''))
      = Inl ValueError
   \<and> script (constant_prophet 7) sample_table (Some ''NY'') (Some ''S3'') (Some ''P1'')
      = \<lparr>rendered = [Metrics 7 (Some 3) (Some 0) (Some 7)], raised = Some ValueError\<rparr>"
proof -
  have fd: "filtered_df sample_table (Some ''NY'') (Some ''S3'') (Some ''P1'')
      = [sale (to_datetime 2024 1 10) ''NY'' ''S3'' ''P1'' 7 3 0]"
    by (simp add: filtered_df_def example_defs pandas_defs)
  have l: "latest (filtered_df sample_table (Some ''NY'') (Some ''S3'') (Some ''P1''))
      = Inr (sale (to_datetime 2024 1 10) ''NY'' ''S3'' ''P1'' 7 3 0)"
    unfolding fd by (simp add: latest_def iloc_last_def)
  have f: "forecast_series (constant_prophet 7)
        (filtered_df sample_table (Some ''NY'') (Some ''S3'') (Some ''P1''))
      = Inl ValueError"
    unfolding fd by (simp add: forecast_series_def fit_def df_prophet_def)
  from forecast_failure_stops_run[OF l f]
  have "script (constant_prophet 7) sample_table (Some ''NY'') (Some ''S3'') (Some ''P1'')
      = \<lparr>rendered = [Metrics 7 (Some 3) (Some 0) (Some 7)], raised = Some ValueError\<rparr>"
    unfolding fd by (simp add: avg_margin_def avg_outstock_def avg_sales_def mean_def sale_def)
  with l f show ?thesis by blast
qed

text \<open>
  C6 as stated fails: on the three-row scenario with a forecaster whose fit raises,
  the run renders the metrics and nothing else; neither aggregation chart appears.
\<close>

theorem forecast_failure_counterexample:
  "forecast_series failing_prophet (filtered_df three_rows (Some ''CA'') (Some ''S1'') (Some ''P1''))
     = Inl RuntimeError
   \<and> script failing_prophet three_rows (Some ''CA'') (Some ''S1'') (Some ''P1'')
       = \<lparr>rendered = [Metrics 30 (Some 5) (Some 1) (Some 20)], raised = Some RuntimeError\<rparr>
   \<and> Top5Chart [(''P1'', 60)]
        \<notin> set (rendered (script failing_prophet three_rows (Some ''CA'') (Some ''S1'') (Some ''P1'')))
   \<and> StoreChart (store_agg three_rows)
        \<notin> set (rendered (script failing_prophet three_rows (Some ''CA'') (Some ''S1'') (Some ''P1'')))
   \<and> top5_df three_rows = Inr [(''P1'', 60)]"
proof -
  have fd: "filtered_df three_rows (Some ''CA'') (Some ''S1'') (Some ''P1'') = three_rows"
    by (simp add: filtered_df_def example_defs pandas_defs)
  have f: "forecast_series failing_prophet three_rows = Inl RuntimeError"
    by (simp add: forecast_series_def fit_def df_prophet_def failing_prophet_def three_rows_def)
  have l: "latest three_rows = Inr (sale (to_datetime 2024 1 3) ''CA'' ''S1'' ''P1'' 30 6 2)"
    by (simp add: latest_def iloc_last_def example_defs)
  have s: "script failing_prophet three_rows (Some ''CA'') (Some ''S1'') (Some ''P1'')
       = \<lparr>rendered = [Metrics 30 (Some 5) (Some 1) (Some 20)], raised = Some RuntimeError\<rparr>"
    by (simp add: script_def fd f l)
       (simp add: avg_margin_def avg_outstock_def avg_sales_def mean_def example_defs)
  have t: "top5_df three_rows = Inr [(''P1'', 60)]"
    by (simp add: top5_df_def nlargest_def groupby_sum_def int64_def example_defs pandas_defs)
  from f s t show ?thesis by (simp add: fd)
qed

subsection \<open>Further properties\<close>

lemma sorted_le_last:
  assumes "sorted xs" and "x \<in> set xs"
  shows "x \<le> last xs"
  using assms by (induction xs) auto

lemma last_sorted_key_Max:
  assumes "xs \<noteq> []" and "sorted (map f xs)"
  shows "f (last xs) = Max (f ` set xs)"
proof (rule Max_eqI[symmetric])
  show "finite (f ` set xs)" by simp
  show "f (last xs) \<in> f ` set xs" using assms(1) by simp
  fix y assume "y \<in> f ` set xs"
  then have "y \<in> set (map f xs)" by simp
  with assms(2) have "y \<le> last (map f xs)" by (rule sorted_le_last)
  then show "y \<le> f (last xs)" using assms(1) by (simp add: last_map)
qed

text \<open>
  The latest-row lookup on a frame with at least one row returns a row of the frame
  whose date is the frame's maximum date.
\<close>

theorem latest_is_max_date:
  assumes "fdf \<noteq> []"
  shows "\<exists>l. latest fdf = Inr l \<and> l \<in> set fdf \<and> date l = Max (date ` set fdf)"
proof -
  let ?s = "sort_key date fdf"
  have "length ?s = length fdf" by simp
  with assms have ne: "?s \<noteq> []" by (metis length_0_conv)
  then have l: "latest fdf = Inr (last ?s)" by (simp add: latest_def iloc_last_def)
  from ne have "last ?s \<in> set ?s" by (rule last_in_set)
  then have m: "last ?s \<in> set fdf" by simp
  have "sorted (map date ?s)" by (rule sorted_sort_key)
  with ne have "date (last ?s) = Max (date ` set ?s)" by (rule last_sorted_key_Max)
  then have "date (last ?s) = Max (date ` set fdf)" by simp
  with l m show ?thesis by blast
qed

theorem latest_is_max_date_witness:
  "sample_table \<noteq> []
   \<and> (\<exists>l. latest sample_table = Inr l \<and> l \<in> set sample_table \<and> date l = to_datetime 2024 1 10)"
proof -
  have ne: "sample_table \<noteq> []" by (simp add: sample_table_def)
  have mx: "Max (date ` set sample_table) = to_datetime 2024 1 10"
    by (simp add: example_defs)
  from latest_is_max_date[OF ne] ne show ?thesis unfolding mx by blast
qed

text \<open>
  When the filtered frame has a row and fit and predict succeed, the run raises nothing
  and renders, in this order, the metrics, the forecast chart, the top-products chart,
  the store chart and the forecast table.
\<close>

theorem successful_run:
  assumes "latest (filtered_df T st so pr) = Inr l"
    and "forecast_series P (filtered_df T st so pr) = Inr mrg"
  shows "script P T st so pr =
      \<lparr>rendered =
         [Metrics (sales l) (avg_margin (filtered_df T st so pr))
            (avg_outstock (filtered_df T st so pr)) (avg_sales (filtered_df T st so pr)),
          ForecastChart (map (\<lambda>r. (date r, of_int (sales r))) (filtered_df T st so pr))
            (zip (col_ts ''ds'' mrg) (col_num ''yhat'' mrg))
            (Some (Max (date ` set (filtered_df T st so pr))))
            (Max ((\<lambda>r. of_int (sales r)) ` set (filtered_df T st so pr))),
          Top5Chart (nlargest 5 (groupby_sum product_id T)),
          StoreChart (store_agg T),
          ForecastTable (round2 (display_df mrg (Some (Max (date ` set (filtered_df T st so pr))))))],
       raised = None\<rparr>"
proof -
  let ?fdf = "filtered_df T st so pr"
  from assms(1) have ne: "?fdf \<noteq> []"
    by (auto simp: latest_def iloc_last_def split: if_splits)
  then have "T \<noteq> []" by (auto simp: filtered_df_filter)
  then have t: "top5_df T = Inr (nlargest 5 (groupby_sum product_id T))"
    by (simp add: top5_df_def)
  have c: "cutoff (df_prophet ?fdf) = Some (Max (date ` set ?fdf))"
    using ne by (rule cutoff_Max)
  have p: "py_max (col_num ''y'' (df_prophet ?fdf))
      = Inr (Max ((\<lambda>r. of_int (sales r)) ` set ?fdf))"
    using ne by (simp add: py_max_def col_num_df_prophet series_max_Max)
  have z: "zip (col_ts ''ds'' (df_prophet ?fdf)) (col_num ''y'' (df_prophet ?fdf))
      = map (\<lambda>r. (date r, of_int (sales r))) ?fdf"
    by (simp add: col_ts_df_prophet col_num_df_prophet zip_map_map zip_same_conv_map)
  show ?thesis
    by (simp add: script_def Let_def assms c p z t)
qed

theorem successful_run_witness:
  "latest (filtered_df three_rows (Some ''CA'') (Some ''S1'') (Some ''P1''))
     = Inr (sale (to_datetime 2024 1 3) ''CA'' ''S1'' ''P1'' 30 6 2)
   \<and> raised (script (constant_prophet 7) three_rows (Some ''CA'') (Some ''S1'') (Some ''P1'')) = None
   \<and> length (rendered (script (constant_prophet 7) three_rows
        (Some ''CA'') (Some ''S1'') (Some ''P1''))) = 5"
proof -
  have fd: "filtered_df three_rows (Some ''CA'') (Some ''S1'') (Some ''P1'') = three_rows"
    by (simp add: filtered_df_def example_defs pandas_defs)
  have l: "latest (filtered_df three_rows (Some ''CA'') (Some ''S1'') (Some ''P1''))
     = Inr (sale (to_datetime 2024 1 3) ''CA'' ''S1'' ''P1'' 30 6 2)"
    unfolding fd by (simp add: latest_def iloc_last_def example_defs)
  have "2 \<le> length three_rows" by (simp add: three_rows_def)
  then have f: "forecast_series (constant_prophet 7)
      (filtered_df three_rows (Some ''CA'') (Some ''S1'') (Some ''P1'')) =
     Inr (map (\<lambda>d. [(''ds'', Timestamp d), (''yhat'', Number 7)]) (all_dates three_rows))"
    unfolding fd by (rule forecast_series_constant)
  from successful_run[OF l f] l show ?thesis by simp
qed

text \<open>
  The values the store box offers are, without repetition, the stores of the rows whose
  state equals the selected state.
\<close>

theorem store_options_exact:
  "set (stores T st) = store_id ` {r \<in> set T. py_eq (state r) st} \<and> distinct (stores T st)"
proof -
  have "distinct (stores T st)" by (simp add: stores_def distinct_unique)
  then show ?thesis by (simp add: stores_set)
qed


end
